theory Spec2Isabelle
  imports Main "HOL-Library.Word"
begin

unbundle bit_operations_syntax

section \<open>Data model\<close>

text \<open>
  The registers of the core are the globals \<^verbatim>\<open>my_pc\<close> (\<^verbatim>\<open>uint16_t\<close>) and
  \<^verbatim>\<open>my_ac, my_x, my_y, my_sr, my_sp\<close> (\<^verbatim>\<open>uint8_t\<close>).
\<close>

record cpu =
  my_pc :: "16 word"
  my_ac :: "8 word"
  my_x :: "8 word"
  my_y :: "8 word"
  my_sr :: "8 word"
  my_sp :: "8 word"

text \<open>
  The two callbacks the user of the core provides. The host may do anything on a read or
  a write, so both thread a host state \<open>'h\<close> of the host's choosing.
\<close>

record 'h host =
  my6502_read :: "16 word \<Rightarrow> 'h \<Rightarrow> 8 word \<times> 'h"
  my6502_write :: "16 word \<Rightarrow> 8 word \<Rightarrow> 'h \<Rightarrow> 'h"

text \<open>
  A failed \<^verbatim>\<open>assert(0)\<close> aborts the process (the build does not define
  \<^verbatim>\<open>NDEBUG\<close>). Its message names the file, the line and the function, and neither an
  opcode nor an address: the error has no payload. The registers are globals, and they
  hold at the abort what they held when the assertion failed; so a failure is the error
  together with the registers and the host at that moment.
\<close>

datatype error = AssertFailed

type_synonym 'h failure = "error \<times> cpu \<times> 'h"

section \<open>Status register\<close>

text \<open>The layout is NV-BDIZC; each flag is \<^verbatim>\<open>(1 << n)\<close>.\<close>

definition SR_FLAG_NEGATIVE :: "8 word" where "SR_FLAG_NEGATIVE = push_bit 7 1"
definition SR_FLAG_OVERFLOW :: "8 word" where "SR_FLAG_OVERFLOW = push_bit 6 1"
definition SR_FLAG_UNUSED :: "8 word" where "SR_FLAG_UNUSED = push_bit 5 1"
definition SR_FLAG_BREAK :: "8 word" where "SR_FLAG_BREAK = push_bit 4 1"
definition SR_FLAG_DECIMAL :: "8 word" where "SR_FLAG_DECIMAL = push_bit 3 1"
definition SR_FLAG_INTERRUPT :: "8 word" where "SR_FLAG_INTERRUPT = push_bit 2 1"
definition SR_FLAG_ZERO :: "8 word" where "SR_FLAG_ZERO = push_bit 1 1"
definition SR_FLAG_CARRY :: "8 word" where "SR_FLAG_CARRY = push_bit 0 1"

text \<open>\<^verbatim>\<open>my_sr &= ~(bit)\<close>, \<^verbatim>\<open>my_sr |= (bit)\<close> and \<^verbatim>\<open>my_sr & (bit)\<close>; the last is used as a C truth value.\<close>

definition SR_CLR :: "8 word \<Rightarrow> cpu \<Rightarrow> cpu" where
  "SR_CLR b s = s\<lparr>my_sr := my_sr s AND NOT b\<rparr>"

definition SR_SET :: "8 word \<Rightarrow> cpu \<Rightarrow> cpu" where
  "SR_SET b s = s\<lparr>my_sr := my_sr s OR b\<rparr>"

definition SR_IS_SET :: "8 word \<Rightarrow> cpu \<Rightarrow> bool" where
  "SR_IS_SET b s \<longleftrightarrow> my_sr s AND b \<noteq> 0"

definition STACK_OFFSET :: "16 word" where "STACK_OFFSET = 0x100"
definition IRQ_OFFSET :: "16 word" where "IRQ_OFFSET = 0xFFFE"

section \<open>Reset\<close>

text \<open>\<^verbatim>\<open>my6502_reset\<close> assigns every register and calls neither callback.\<close>

definition my6502_reset :: "16 word \<Rightarrow> cpu \<times> 'h \<Rightarrow> cpu \<times> 'h" where
  "my6502_reset pc = (\<lambda>(s, h).
     (s\<lparr>my_pc := pc, my_ac := 0, my_x := 0, my_y := 0, my_sp := 0xFD,
        my_sr := SR_FLAG_UNUSED\<rparr>, h))"

section \<open>Flag updates and the stack\<close>

definition my_update_sr :: "8 word \<Rightarrow> 8 word \<Rightarrow> cpu \<Rightarrow> cpu" where
  "my_update_sr v flags s =
     (let s1 = (if flags AND SR_FLAG_NEGATIVE \<noteq> 0
                then (if v AND 0x80 \<noteq> 0 then SR_SET SR_FLAG_NEGATIVE s
                      else SR_CLR SR_FLAG_NEGATIVE s)
                else s)
      in if flags AND SR_FLAG_ZERO \<noteq> 0
         then (if v = 0 then SR_SET SR_FLAG_ZERO s1 else SR_CLR SR_FLAG_ZERO s1)
         else s1)"

definition my_update_sr_with_carry :: "8 word \<Rightarrow> 8 word \<Rightarrow> 8 word \<Rightarrow> cpu \<Rightarrow> cpu" where
  "my_update_sr_with_carry reg_value flags carry_value s =
     (let s1 = my_update_sr reg_value flags s
      in if carry_value \<noteq> 0 then SR_SET SR_FLAG_CARRY s1 else SR_CLR SR_FLAG_CARRY s1)"

text \<open>\<^verbatim>\<open>my6502_write(STACK_OFFSET + my_sp--, value)\<close>: write first, then decrement.\<close>

definition my_push :: "'h host \<Rightarrow> 8 word \<Rightarrow> cpu \<times> 'h \<Rightarrow> cpu \<times> 'h" where
  "my_push H v = (\<lambda>(s, h).
     (s\<lparr>my_sp := my_sp s - 1\<rparr>, my6502_write H (STACK_OFFSET + ucast (my_sp s)) v h))"

text \<open>\<^verbatim>\<open>my6502_read(STACK_OFFSET + ++my_sp)\<close>: increment first, then read.\<close>

definition my_pop :: "'h host \<Rightarrow> cpu \<times> 'h \<Rightarrow> 8 word \<times> cpu \<times> 'h" where
  "my_pop H = (\<lambda>(s, h).
     let sp = my_sp s + 1;
         (v, h1) = my6502_read H (STACK_OFFSET + ucast sp) h
     in (v, s\<lparr>my_sp := sp\<rparr>, h1))"

section \<open>Addressing modes\<close>

datatype my_addr =
    IMMEDIATE
  | ABSOLUTE
  | ABSOLUTE_X
  | ABSOLUTE_Y
  | ACCUMULATOR
  | RELATIVE
  | INDIRECT
  | INDIRECT_X
  | INDIRECT_Y
  | ZEROPAGE
  | ZEROPAGE_X
  | ZEROPAGE_Y

text \<open>The value of each enumerator, as C numbers them.\<close>

fun mode_code :: "my_addr \<Rightarrow> 32 word" where
  "mode_code IMMEDIATE = 0"
| "mode_code ABSOLUTE = 1"
| "mode_code ABSOLUTE_X = 2"
| "mode_code ABSOLUTE_Y = 3"
| "mode_code ACCUMULATOR = 4"
| "mode_code RELATIVE = 5"
| "mode_code INDIRECT = 6"
| "mode_code INDIRECT_X = 7"
| "mode_code INDIRECT_Y = 8"
| "mode_code ZEROPAGE = 9"
| "mode_code ZEROPAGE_X = 10"
| "mode_code ZEROPAGE_Y = 11"

text \<open>
  \<^verbatim>\<open>my_read_addr_from_mem(uint16_t *reg)\<close> reads a little-endian address at \<^verbatim>\<open>*reg\<close> and
  advances \<^verbatim>\<open>*reg\<close> by two. The result is the address, the new \<^verbatim>\<open>*reg\<close> and the host.
\<close>

definition my_read_addr_from_mem :: "'h host \<Rightarrow> 16 word \<Rightarrow> 'h \<Rightarrow> 16 word \<times> 16 word \<times> 'h" where
  "my_read_addr_from_mem H reg h =
     (let (lo, h1) = my6502_read H reg h;
          (hi, h2) = my6502_read H (reg + 1) h1
      in (ucast lo OR push_bit 8 (ucast hi), reg + 2, h2))"

text \<open>
  \<^verbatim>\<open>my_read_addr\<close>. The operands are promoted to \<^verbatim>\<open>int\<close> and the result is converted to
  \<^verbatim>\<open>uint16_t\<close> on return, so the sums are taken in 16 bits. \<^verbatim>\<open>(int8_t)addr\<close> sign-extends
  the offset byte. The \<^verbatim>\<open>default\<close> branch is \<^verbatim>\<open>assert(0)\<close>.
\<close>

fun my_read_addr :: "'h host \<Rightarrow> my_addr \<Rightarrow> cpu \<times> 'h \<Rightarrow> 'h failure + 16 word \<times> cpu \<times> 'h" where
  "my_read_addr H ABSOLUTE (s, h) =
     (let (a, pc, h1) = my_read_addr_from_mem H (my_pc s) h
      in Inr (a, s\<lparr>my_pc := pc\<rparr>, h1))"
| "my_read_addr H ABSOLUTE_X (s, h) =
     (let (a, pc, h1) = my_read_addr_from_mem H (my_pc s) h
      in Inr (a + ucast (my_x s), s\<lparr>my_pc := pc\<rparr>, h1))"
| "my_read_addr H ABSOLUTE_Y (s, h) =
     (let (a, pc, h1) = my_read_addr_from_mem H (my_pc s) h
      in Inr (a + ucast (my_y s), s\<lparr>my_pc := pc\<rparr>, h1))"
| "my_read_addr H RELATIVE (s, h) =
     (let (b, h1) = my6502_read H (my_pc s) h;
          s1 = s\<lparr>my_pc := my_pc s + 1\<rparr>
      in Inr (my_pc s1 + scast b, s1, h1))"
| "my_read_addr H INDIRECT (s, h) =
     (let (p, pc, h1) = my_read_addr_from_mem H (my_pc s) h;
          (a, _, h2) = my_read_addr_from_mem H p h1
      in Inr (a, s\<lparr>my_pc := pc\<rparr>, h2))"
| "my_read_addr H INDIRECT_X (s, h) =
     (let (b, h1) = my6502_read H (my_pc s) h;
          s1 = s\<lparr>my_pc := my_pc s + 1\<rparr>;
          p = (ucast b + ucast (my_x s1)) AND 0xFF;
          (a, _, h2) = my_read_addr_from_mem H p h1
      in Inr (a, s1, h2))"
| "my_read_addr H INDIRECT_Y (s, h) =
     (let (b, h1) = my6502_read H (my_pc s) h;
          s1 = s\<lparr>my_pc := my_pc s + 1\<rparr>;
          (a, _, h2) = my_read_addr_from_mem H (ucast b) h1
      in Inr (a + ucast (my_y s1), s1, h2))"
| "my_read_addr H ZEROPAGE (s, h) =
     (let (b, h1) = my6502_read H (my_pc s) h
      in Inr (ucast b, s\<lparr>my_pc := my_pc s + 1\<rparr>, h1))"
| "my_read_addr H ZEROPAGE_X (s, h) =
     (let (b, h1) = my6502_read H (my_pc s) h;
          s1 = s\<lparr>my_pc := my_pc s + 1\<rparr>
      in Inr ((ucast b + ucast (my_x s1)) AND 0xFF, s1, h1))"
| "my_read_addr H ZEROPAGE_Y (s, h) =
     (let (b, h1) = my6502_read H (my_pc s) h;
          s1 = s\<lparr>my_pc := my_pc s + 1\<rparr>
      in Inr ((ucast b + ucast (my_y s1)) AND 0xFF, s1, h1))"
| "my_read_addr H _ (s, h) = Inl (AssertFailed, s, h)"

text \<open>
  \<^verbatim>\<open>my_read_op\<close> packs \<^verbatim>\<open>(addr << 16) | (mode << 8) | value\<close> into a \<^verbatim>\<open>uint32_t\<close>: the
  address in the two high bytes (as gcc shifts a promoted \<^verbatim>\<open>uint16_t\<close>), the mode in byte 1,
  the operand in byte 0. The modes that go through \<^verbatim>\<open>my_read_addr\<close> share one branch,
  \<open>read_op_at\<close>; the \<^verbatim>\<open>default\<close> branch is \<^verbatim>\<open>assert(0)\<close>.
\<close>

definition pack_op :: "16 word \<Rightarrow> my_addr \<Rightarrow> 8 word \<Rightarrow> 32 word" where
  "pack_op a mode v = push_bit 16 (ucast a) OR push_bit 8 (mode_code mode) OR ucast v"

definition read_op_at :: "'h host \<Rightarrow> my_addr \<Rightarrow> cpu \<times> 'h \<Rightarrow> 'h failure + 32 word \<times> cpu \<times> 'h" where
  "read_op_at H mode st =
     (case my_read_addr H mode st of
        Inl e \<Rightarrow> Inl e
      | Inr (a, s1, h1) \<Rightarrow>
          (let (v, h2) = my6502_read H a h1 in Inr (pack_op a mode v, s1, h2)))"

fun my_read_op :: "'h host \<Rightarrow> my_addr \<Rightarrow> cpu \<times> 'h \<Rightarrow> 'h failure + 32 word \<times> cpu \<times> 'h" where
  "my_read_op H ABSOLUTE st = read_op_at H ABSOLUTE st"
| "my_read_op H ABSOLUTE_X st = read_op_at H ABSOLUTE_X st"
| "my_read_op H ABSOLUTE_Y st = read_op_at H ABSOLUTE_Y st"
| "my_read_op H INDIRECT_X st = read_op_at H INDIRECT_X st"
| "my_read_op H INDIRECT_Y st = read_op_at H INDIRECT_Y st"
| "my_read_op H ZEROPAGE st = read_op_at H ZEROPAGE st"
| "my_read_op H ZEROPAGE_X st = read_op_at H ZEROPAGE_X st"
| "my_read_op H ZEROPAGE_Y st = read_op_at H ZEROPAGE_Y st"
| "my_read_op H IMMEDIATE (s, h) =
     (let a = my_pc s;
          s1 = s\<lparr>my_pc := my_pc s + 1\<rparr>;
          (v, h1) = my6502_read H a h
      in Inr (pack_op a IMMEDIATE v, s1, h1))"
| "my_read_op H ACCUMULATOR (s, h) =
     Inr (push_bit 8 (mode_code ACCUMULATOR) OR ucast (my_ac s), s, h)"
| "my_read_op H _ (s, h) = Inl (AssertFailed, s, h)"

definition my_write_op :: "'h host \<Rightarrow> 32 word \<Rightarrow> 8 word \<Rightarrow> cpu \<times> 'h \<Rightarrow> cpu \<times> 'h" where
  "my_write_op H op v = (\<lambda>(s, h).
     let mode = drop_bit 8 op AND 0xFF;
         a = (ucast (drop_bit 16 op) :: 16 word)
     in if mode \<noteq> mode_code ACCUMULATOR then (s, my6502_write H a v h)
        else (s\<lparr>my_ac := v\<rparr>, h))"

section \<open>Instructions\<close>

text \<open>
  One definition per \<^verbatim>\<open>my_\<close>\<open>xxx\<close> routine. A routine that calls no callback is a function
  on the registers; the others also thread the host.
\<close>

text \<open>
  \<^verbatim>\<open>my_adc\<close>: \<^verbatim>\<open>result\<close> is a \<^verbatim>\<open>uint16_t\<close>; \<^verbatim>\<open>my_ac = result\<close> keeps its low byte; the
  carry passed on is \<^verbatim>\<open>result >= 0x100\<close>.
\<close>

definition my_adc :: "8 word \<Rightarrow> cpu \<Rightarrow> cpu" where
  "my_adc v s =
     (let same_sign = (my_ac s AND 0x80 = v AND 0x80);
          result0 = (ucast (my_ac s) + ucast v :: 16 word);
          result = (if SR_IS_SET SR_FLAG_CARRY s then result0 + 1 else result0);
          s1 = (if same_sign \<and> result AND 0x80 \<noteq> ucast (v AND 0x80)
                then SR_SET SR_FLAG_OVERFLOW s else SR_CLR SR_FLAG_OVERFLOW s);
          s2 = s1\<lparr>my_ac := ucast result\<rparr>
      in my_update_sr_with_carry (my_ac s2) (SR_FLAG_NEGATIVE OR SR_FLAG_ZERO)
           (if result \<ge> 0x100 then 1 else 0) s2)"

definition my_and :: "8 word \<Rightarrow> cpu \<Rightarrow> cpu" where
  "my_and v s =
     (let s1 = s\<lparr>my_ac := my_ac s AND v\<rparr> in my_update_sr (my_ac s1) (SR_FLAG_NEGATIVE OR SR_FLAG_ZERO) s1)"

definition my_asl :: "'h host \<Rightarrow> 32 word \<Rightarrow> cpu \<times> 'h \<Rightarrow> cpu \<times> 'h" where
  "my_asl H op = (\<lambda>(s, h).
     let v0 = (ucast op :: 8 word);
         b = v0 AND 0x80;
         v = push_bit 1 v0;
         s1 = my_update_sr_with_carry v (SR_FLAG_NEGATIVE OR SR_FLAG_ZERO) b s
     in my_write_op H op v (s1, h))"

definition my_bcs :: "16 word \<Rightarrow> cpu \<Rightarrow> cpu" where
  "my_bcs a s = (if SR_IS_SET SR_FLAG_CARRY s then s\<lparr>my_pc := a\<rparr> else s)"

definition my_bit :: "8 word \<Rightarrow> cpu \<Rightarrow> cpu" where
  "my_bit v s =
     (let s1 = (if v AND SR_FLAG_NEGATIVE \<noteq> 0 then s\<lparr>my_sr := my_sr s OR SR_FLAG_NEGATIVE\<rparr>
                else s\<lparr>my_sr := my_sr s AND NOT SR_FLAG_NEGATIVE\<rparr>);
          s2 = (if v AND SR_FLAG_OVERFLOW \<noteq> 0 then s1\<lparr>my_sr := my_sr s1 OR SR_FLAG_OVERFLOW\<rparr>
                else s1\<lparr>my_sr := my_sr s1 AND NOT SR_FLAG_OVERFLOW\<rparr>)
      in if my_ac s2 AND v \<noteq> 0 then s2\<lparr>my_sr := my_sr s2 AND NOT SR_FLAG_ZERO\<rparr>
         else s2\<lparr>my_sr := my_sr s2 OR SR_FLAG_ZERO\<rparr>)"

definition my_bne :: "16 word \<Rightarrow> cpu \<Rightarrow> cpu" where
  "my_bne a s = (if \<not> SR_IS_SET SR_FLAG_ZERO s then s\<lparr>my_pc := a\<rparr> else s)"

definition my_bcc :: "16 word \<Rightarrow> cpu \<Rightarrow> cpu" where
  "my_bcc a s = (if \<not> SR_IS_SET SR_FLAG_CARRY s then s\<lparr>my_pc := a\<rparr> else s)"

definition my_beq :: "16 word \<Rightarrow> cpu \<Rightarrow> cpu" where
  "my_beq a s = (if SR_IS_SET SR_FLAG_ZERO s then s\<lparr>my_pc := a\<rparr> else s)"

definition my_bmi :: "16 word \<Rightarrow> cpu \<Rightarrow> cpu" where
  "my_bmi a s = (if SR_IS_SET SR_FLAG_NEGATIVE s then s\<lparr>my_pc := a\<rparr> else s)"

definition my_bpl :: "16 word \<Rightarrow> cpu \<Rightarrow> cpu" where
  "my_bpl a s = (if \<not> SR_IS_SET SR_FLAG_NEGATIVE s then s\<lparr>my_pc := a\<rparr> else s)"

definition my_brk :: "'h host \<Rightarrow> cpu \<times> 'h \<Rightarrow> cpu \<times> 'h" where
  "my_brk H st =
     (let return_addr = my_pc (fst st) + 1;
          st1 = my_push H (ucast (drop_bit 8 return_addr)) st;
          st2 = my_push H (ucast return_addr) st1;
          (s3, h3) = my_push H (my_sr (fst st2) OR SR_FLAG_BREAK) st2;
          (lo, h4) = my6502_read H IRQ_OFFSET h3;
          s4 = s3\<lparr>my_pc := ucast lo\<rparr>;
          (hi, h5) = my6502_read H (IRQ_OFFSET + 1) h4;
          s5 = s4\<lparr>my_pc := my_pc s4 OR push_bit 8 (ucast hi)\<rparr>
      in (s5\<lparr>my_sr := my_sr s5 OR SR_FLAG_INTERRUPT\<rparr>, h5))"

definition my_bvc :: "16 word \<Rightarrow> cpu \<Rightarrow> cpu" where
  "my_bvc a s = (if \<not> SR_IS_SET SR_FLAG_OVERFLOW s then s\<lparr>my_pc := a\<rparr> else s)"

definition my_bvs :: "16 word \<Rightarrow> cpu \<Rightarrow> cpu" where
  "my_bvs a s = (if SR_IS_SET SR_FLAG_OVERFLOW s then s\<lparr>my_pc := a\<rparr> else s)"

definition my_clc :: "cpu \<Rightarrow> cpu" where
  "my_clc s = s\<lparr>my_sr := my_sr s AND NOT SR_FLAG_CARRY\<rparr>"

definition my_cld :: "cpu \<Rightarrow> cpu" where
  "my_cld s = s\<lparr>my_sr := my_sr s AND NOT SR_FLAG_DECIMAL\<rparr>"

definition my_cli :: "cpu \<Rightarrow> cpu" where
  "my_cli s = s\<lparr>my_sr := my_sr s AND NOT SR_FLAG_INTERRUPT\<rparr>"

definition my_clv :: "cpu \<Rightarrow> cpu" where
  "my_clv s = s\<lparr>my_sr := my_sr s AND NOT SR_FLAG_OVERFLOW\<rparr>"

definition my_cmp :: "8 word \<Rightarrow> cpu \<Rightarrow> cpu" where
  "my_cmp v s =
     my_update_sr_with_carry (my_ac s - v) (SR_FLAG_NEGATIVE OR SR_FLAG_ZERO) (if my_ac s \<ge> v then 1 else 0) s"

definition my_cpx :: "8 word \<Rightarrow> cpu \<Rightarrow> cpu" where
  "my_cpx v s =
     my_update_sr_with_carry (my_x s - v) (SR_FLAG_NEGATIVE OR SR_FLAG_ZERO) (if my_x s \<ge> v then 1 else 0) s"

definition my_cpy :: "8 word \<Rightarrow> cpu \<Rightarrow> cpu" where
  "my_cpy v s =
     my_update_sr_with_carry (my_y s - v) (SR_FLAG_NEGATIVE OR SR_FLAG_ZERO) (if my_y s \<ge> v then 1 else 0) s"

definition my_dec :: "'h host \<Rightarrow> 16 word \<Rightarrow> cpu \<times> 'h \<Rightarrow> cpu \<times> 'h" where
  "my_dec H a = (\<lambda>(s, h).
     let (v0, h1) = my6502_read H a h;
         v = v0 - 1;
         s1 = my_update_sr v (SR_FLAG_NEGATIVE OR SR_FLAG_ZERO) s
     in (s1, my6502_write H a v h1))"

definition my_dex :: "cpu \<Rightarrow> cpu" where
  "my_dex s = (let s1 = s\<lparr>my_x := my_x s - 1\<rparr> in my_update_sr (my_x s1) (SR_FLAG_NEGATIVE OR SR_FLAG_ZERO) s1)"

definition my_dey :: "cpu \<Rightarrow> cpu" where
  "my_dey s = (let s1 = s\<lparr>my_y := my_y s - 1\<rparr> in my_update_sr (my_y s1) (SR_FLAG_NEGATIVE OR SR_FLAG_ZERO) s1)"

definition my_eor :: "8 word \<Rightarrow> cpu \<Rightarrow> cpu" where
  "my_eor v s =
     (let s1 = s\<lparr>my_ac := my_ac s XOR v\<rparr> in my_update_sr (my_ac s1) (SR_FLAG_NEGATIVE OR SR_FLAG_ZERO) s1)"

definition my_jmp :: "16 word \<Rightarrow> cpu \<Rightarrow> cpu" where
  "my_jmp a s = s\<lparr>my_pc := a\<rparr>"

text \<open>\<^verbatim>\<open>my_jsr\<close> saves \<^verbatim>\<open>my_pc - 1\<close>, high byte first.\<close>

definition my_jsr :: "'h host \<Rightarrow> 16 word \<Rightarrow> cpu \<times> 'h \<Rightarrow> cpu \<times> 'h" where
  "my_jsr H a st =
     (let old_pc = my_pc (fst st) - 1;
          st1 = my_push H (ucast (drop_bit 8 old_pc)) st;
          (s2, h2) = my_push H (ucast old_pc) st1
      in (s2\<lparr>my_pc := a\<rparr>, h2))"

definition my_inc :: "'h host \<Rightarrow> 16 word \<Rightarrow> cpu \<times> 'h \<Rightarrow> cpu \<times> 'h" where
  "my_inc H a = (\<lambda>(s, h).
     let (v0, h1) = my6502_read H a h;
         v = v0 + 1;
         s1 = my_update_sr v (SR_FLAG_NEGATIVE OR SR_FLAG_ZERO) s
     in (s1, my6502_write H a v h1))"

definition my_inx :: "cpu \<Rightarrow> cpu" where
  "my_inx s = (let s1 = s\<lparr>my_x := my_x s + 1\<rparr> in my_update_sr (my_x s1) (SR_FLAG_NEGATIVE OR SR_FLAG_ZERO) s1)"

definition my_iny :: "cpu \<Rightarrow> cpu" where
  "my_iny s = (let s1 = s\<lparr>my_y := my_y s + 1\<rparr> in my_update_sr (my_y s1) (SR_FLAG_NEGATIVE OR SR_FLAG_ZERO) s1)"

definition my_lda :: "8 word \<Rightarrow> cpu \<Rightarrow> cpu" where
  "my_lda v s = (let s1 = s\<lparr>my_ac := v\<rparr> in my_update_sr (my_ac s1) (SR_FLAG_NEGATIVE OR SR_FLAG_ZERO) s1)"

definition my_ldx :: "8 word \<Rightarrow> cpu \<Rightarrow> cpu" where
  "my_ldx v s = (let s1 = s\<lparr>my_x := v\<rparr> in my_update_sr (my_x s1) (SR_FLAG_NEGATIVE OR SR_FLAG_ZERO) s1)"

definition my_ldy :: "8 word \<Rightarrow> cpu \<Rightarrow> cpu" where
  "my_ldy v s = (let s1 = s\<lparr>my_y := v\<rparr> in my_update_sr (my_y s1) (SR_FLAG_NEGATIVE OR SR_FLAG_ZERO) s1)"

definition my_lsr :: "'h host \<Rightarrow> 32 word \<Rightarrow> cpu \<times> 'h \<Rightarrow> cpu \<times> 'h" where
  "my_lsr H op = (\<lambda>(s, h).
     let v0 = (ucast op :: 8 word);
         b = v0 AND 0x01;
         v = drop_bit 1 v0;
         s1 = my_update_sr_with_carry v (SR_FLAG_NEGATIVE OR SR_FLAG_ZERO) b s
     in my_write_op H op v (s1, h))"

definition my_nop :: "cpu \<Rightarrow> cpu" where
  "my_nop s = s"

definition my_ora :: "8 word \<Rightarrow> cpu \<Rightarrow> cpu" where
  "my_ora v s =
     (let s1 = s\<lparr>my_ac := my_ac s OR v\<rparr> in my_update_sr (my_ac s1) (SR_FLAG_NEGATIVE OR SR_FLAG_ZERO) s1)"

definition my_rol :: "'h host \<Rightarrow> 32 word \<Rightarrow> cpu \<times> 'h \<Rightarrow> cpu \<times> 'h" where
  "my_rol H op = (\<lambda>(s, h).
     let v0 = (ucast op :: 8 word);
         b = v0 AND 0x80;
         v = push_bit 1 v0 + (my_sr s AND SR_FLAG_CARRY);
         s1 = my_update_sr_with_carry v (SR_FLAG_NEGATIVE OR SR_FLAG_ZERO) b s
     in my_write_op H op v (s1, h))"

definition my_ror :: "'h host \<Rightarrow> 32 word \<Rightarrow> cpu \<times> 'h \<Rightarrow> cpu \<times> 'h" where
  "my_ror H op = (\<lambda>(s, h).
     let v0 = (ucast op :: 8 word);
         b = v0 AND 0x01;
         v = drop_bit 1 v0 + (if my_sr s AND SR_FLAG_CARRY \<noteq> 0 then 0x80 else 0x00);
         s1 = my_update_sr_with_carry v (SR_FLAG_NEGATIVE OR SR_FLAG_ZERO) b s
     in my_write_op H op v (s1, h))"

text \<open>\<^verbatim>\<open>my_rti\<close>: \<^verbatim>\<open>my_sr = my_pop() | SR_FLAG_BREAK\<close>, then the program counter, low byte first.\<close>

definition my_rti :: "'h host \<Rightarrow> cpu \<times> 'h \<Rightarrow> cpu \<times> 'h" where
  "my_rti H st =
     (let (v, s1, h1) = my_pop H st;
          s2 = s1\<lparr>my_sr := v OR SR_FLAG_BREAK\<rparr>;
          (lo, s3, h3) = my_pop H (s2, h1);
          s4 = s3\<lparr>my_pc := ucast lo\<rparr>;
          (hi, s5, h5) = my_pop H (s4, h3)
      in (s5\<lparr>my_pc := my_pc s5 OR push_bit 8 (ucast hi)\<rparr>, h5))"

definition my_rts :: "'h host \<Rightarrow> cpu \<times> 'h \<Rightarrow> cpu \<times> 'h" where
  "my_rts H st =
     (let (lo, s1, h1) = my_pop H st;
          s2 = s1\<lparr>my_pc := ucast lo\<rparr>;
          (hi, s3, h3) = my_pop H (s2, h1);
          s4 = s3\<lparr>my_pc := my_pc s3 OR push_bit 8 (ucast hi)\<rparr>
      in (s4\<lparr>my_pc := my_pc s4 + 1\<rparr>, h3))"

definition my_pha :: "'h host \<Rightarrow> cpu \<times> 'h \<Rightarrow> cpu \<times> 'h" where
  "my_pha H st = my_push H (my_ac (fst st)) st"

text \<open>\<^verbatim>\<open>my_php\<close>: \<^verbatim>\<open>my_push(my_sr | SR_FLAG_BREAK)\<close>.\<close>

definition my_php :: "'h host \<Rightarrow> cpu \<times> 'h \<Rightarrow> cpu \<times> 'h" where
  "my_php H st = my_push H (my_sr (fst st) OR SR_FLAG_BREAK) st"

definition my_pla :: "'h host \<Rightarrow> cpu \<times> 'h \<Rightarrow> cpu \<times> 'h" where
  "my_pla H st =
     (let (v, s1, h1) = my_pop H st;
          s2 = s1\<lparr>my_ac := v\<rparr>
      in (my_update_sr (my_ac s2) (SR_FLAG_NEGATIVE OR SR_FLAG_ZERO) s2, h1))"

text \<open>\<^verbatim>\<open>my_plp\<close>: \<^verbatim>\<open>my_sr = my_pop() | SR_FLAG_UNUSED\<close>.\<close>

definition my_plp :: "'h host \<Rightarrow> cpu \<times> 'h \<Rightarrow> cpu \<times> 'h" where
  "my_plp H st =
     (let (v, s1, h1) = my_pop H st
      in (s1\<lparr>my_sr := v OR SR_FLAG_UNUSED\<rparr>, h1))"

text \<open>\<^verbatim>\<open>my_sbc\<close> is \<^verbatim>\<open>my_adc(~value)\<close>, the complement converted back to \<^verbatim>\<open>uint8_t\<close>.\<close>

definition my_sbc :: "8 word \<Rightarrow> cpu \<Rightarrow> cpu" where
  "my_sbc v s = my_adc (NOT v) s"

definition my_sec :: "cpu \<Rightarrow> cpu" where
  "my_sec s = s\<lparr>my_sr := my_sr s OR SR_FLAG_CARRY\<rparr>"

definition my_sed :: "cpu \<Rightarrow> cpu" where
  "my_sed s = s\<lparr>my_sr := my_sr s OR SR_FLAG_DECIMAL\<rparr>"

definition my_sei :: "cpu \<Rightarrow> cpu" where
  "my_sei s = s\<lparr>my_sr := my_sr s OR SR_FLAG_INTERRUPT\<rparr>"

definition my_sta :: "'h host \<Rightarrow> 16 word \<Rightarrow> cpu \<times> 'h \<Rightarrow> cpu \<times> 'h" where
  "my_sta H a = (\<lambda>(s, h). (s, my6502_write H a (my_ac s) h))"

definition my_stx :: "'h host \<Rightarrow> 16 word \<Rightarrow> cpu \<times> 'h \<Rightarrow> cpu \<times> 'h" where
  "my_stx H a = (\<lambda>(s, h). (s, my6502_write H a (my_x s) h))"

definition my_sty :: "'h host \<Rightarrow> 16 word \<Rightarrow> cpu \<times> 'h \<Rightarrow> cpu \<times> 'h" where
  "my_sty H a = (\<lambda>(s, h). (s, my6502_write H a (my_y s) h))"

definition my_tax :: "cpu \<Rightarrow> cpu" where
  "my_tax s = (let s1 = s\<lparr>my_x := my_ac s\<rparr> in my_update_sr (my_x s1) (SR_FLAG_NEGATIVE OR SR_FLAG_ZERO) s1)"

definition my_tay :: "cpu \<Rightarrow> cpu" where
  "my_tay s = (let s1 = s\<lparr>my_y := my_ac s\<rparr> in my_update_sr (my_y s1) (SR_FLAG_NEGATIVE OR SR_FLAG_ZERO) s1)"

definition my_tsx :: "cpu \<Rightarrow> cpu" where
  "my_tsx s = (let s1 = s\<lparr>my_x := my_sp s\<rparr> in my_update_sr (my_x s1) (SR_FLAG_NEGATIVE OR SR_FLAG_ZERO) s1)"

definition my_txa :: "cpu \<Rightarrow> cpu" where
  "my_txa s = (let s1 = s\<lparr>my_ac := my_x s\<rparr> in my_update_sr (my_ac s1) (SR_FLAG_NEGATIVE OR SR_FLAG_ZERO) s1)"

definition my_txs :: "cpu \<Rightarrow> cpu" where
  "my_txs s = s\<lparr>my_sp := my_x s\<rparr>"

definition my_tya :: "cpu \<Rightarrow> cpu" where
  "my_tya s = (let s1 = s\<lparr>my_ac := my_y s\<rparr> in my_update_sr (my_ac s1) (SR_FLAG_NEGATIVE OR SR_FLAG_ZERO) s1)"

section \<open>Dispatch\<close>

text \<open>
  The shapes of the actions of the \<^verbatim>\<open>switch\<close>: a routine without argument, a routine
  applied to \<^verbatim>\<open>my_read_op(mode)\<close> (converted to \<^verbatim>\<open>uint8_t\<close> where the parameter is one),
  and a routine applied to \<^verbatim>\<open>my_read_addr(mode)\<close>. The suffix tells whether the routine
  uses the registers only (\<open>r\<close>) or the bus too (\<open>b\<close>).
\<close>

type_synonym 'h action = "cpu \<times> 'h \<Rightarrow> 'h failure + cpu \<times> 'h"

definition exec_r :: "(cpu \<Rightarrow> cpu) \<Rightarrow> 'h action" where
  "exec_r f = (\<lambda>(s, h). Inr (f s, h))"

definition exec_b :: "(cpu \<times> 'h \<Rightarrow> cpu \<times> 'h) \<Rightarrow> 'h action" where
  "exec_b f = (\<lambda>st. Inr (f st))"

definition exec_val :: "'h host \<Rightarrow> (8 word \<Rightarrow> cpu \<Rightarrow> cpu) \<Rightarrow> my_addr \<Rightarrow> 'h action" where
  "exec_val H f mode = (\<lambda>st.
     case my_read_op H mode st of
       Inl e \<Rightarrow> Inl e
     | Inr (op, s1, h1) \<Rightarrow> Inr (f (ucast op) s1, h1))"

definition exec_op :: "'h host \<Rightarrow> (32 word \<Rightarrow> cpu \<times> 'h \<Rightarrow> cpu \<times> 'h) \<Rightarrow> my_addr \<Rightarrow> 'h action" where
  "exec_op H f mode = (\<lambda>st.
     case my_read_op H mode st of
       Inl e \<Rightarrow> Inl e
     | Inr (op, st1) \<Rightarrow> Inr (f op st1))"

definition exec_addr_r :: "'h host \<Rightarrow> (16 word \<Rightarrow> cpu \<Rightarrow> cpu) \<Rightarrow> my_addr \<Rightarrow> 'h action" where
  "exec_addr_r H f mode = (\<lambda>st.
     case my_read_addr H mode st of
       Inl e \<Rightarrow> Inl e
     | Inr (a, s1, h1) \<Rightarrow> Inr (f a s1, h1))"

definition exec_addr_b :: "'h host \<Rightarrow> (16 word \<Rightarrow> cpu \<times> 'h \<Rightarrow> cpu \<times> 'h) \<Rightarrow> my_addr \<Rightarrow> 'h action" where
  "exec_addr_b H f mode = (\<lambda>st.
     case my_read_addr H mode st of
       Inl e \<Rightarrow> Inl e
     | Inr (a, st1) \<Rightarrow> Inr (f a st1))"

text \<open>The cases of the \<^verbatim>\<open>switch\<close> of \<^verbatim>\<open>my6502_step\<close>, in the order of the source.\<close>

definition opcodes :: "'h host \<Rightarrow> (8 word \<times> 'h action) list" where
  "opcodes H =
    [(0x00, exec_b (my_brk H)),
     (0x01, exec_val H my_ora INDIRECT_X),
     (0x05, exec_val H my_ora ZEROPAGE),
     (0x06, exec_op H (my_asl H) ZEROPAGE),
     (0x08, exec_b (my_php H)),
     (0x09, exec_val H my_ora IMMEDIATE),
     (0x0A, exec_op H (my_asl H) ACCUMULATOR),
     (0x0D, exec_val H my_ora ABSOLUTE),
     (0x0E, exec_op H (my_asl H) ABSOLUTE),
     (0x10, exec_addr_r H my_bpl RELATIVE),
     (0x11, exec_val H my_ora INDIRECT_Y),
     (0x15, exec_val H my_ora ZEROPAGE_X),
     (0x16, exec_op H (my_asl H) ZEROPAGE_X),
     (0x18, exec_r my_clc),
     (0x19, exec_val H my_ora ABSOLUTE_Y),
     (0x1D, exec_val H my_ora ABSOLUTE_X),
     (0x1E, exec_op H (my_asl H) ABSOLUTE_X),
     (0x20, exec_addr_b H (my_jsr H) ABSOLUTE),
     (0x21, exec_val H my_and INDIRECT_X),
     (0x24, exec_val H my_bit ZEROPAGE),
     (0x25, exec_val H my_and ZEROPAGE),
     (0x26, exec_op H (my_rol H) ZEROPAGE),
     (0x28, exec_b (my_plp H)),
     (0x29, exec_val H my_and IMMEDIATE),
     (0x2A, exec_op H (my_rol H) ACCUMULATOR),
     (0x2C, exec_val H my_bit ABSOLUTE),
     (0x2D, exec_val H my_and ABSOLUTE),
     (0x2E, exec_op H (my_rol H) ABSOLUTE),
     (0x30, exec_addr_r H my_bmi RELATIVE),
     (0x31, exec_val H my_and INDIRECT_Y),
     (0x35, exec_val H my_and ZEROPAGE_X),
     (0x36, exec_op H (my_rol H) ZEROPAGE_X),
     (0x38, exec_r my_sec),
     (0x39, exec_val H my_and ABSOLUTE_Y),
     (0x3D, exec_val H my_and ABSOLUTE_X),
     (0x3E, exec_op H (my_rol H) ABSOLUTE_X),
     (0x40, exec_b (my_rti H)),
     (0x41, exec_val H my_eor INDIRECT_X),
     (0x45, exec_val H my_eor ZEROPAGE),
     (0x46, exec_op H (my_lsr H) ZEROPAGE),
     (0x48, exec_b (my_pha H)),
     (0x49, exec_val H my_eor IMMEDIATE),
     (0x4A, exec_op H (my_lsr H) ACCUMULATOR),
     (0x4C, exec_addr_r H my_jmp ABSOLUTE),
     (0x4D, exec_val H my_eor ABSOLUTE),
     (0x4E, exec_op H (my_lsr H) ABSOLUTE),
     (0x50, exec_addr_r H my_bvc RELATIVE),
     (0x51, exec_val H my_eor INDIRECT_Y),
     (0x55, exec_val H my_eor ZEROPAGE_X),
     (0x56, exec_op H (my_lsr H) ZEROPAGE_X),
     (0x58, exec_r my_cli),
     (0x59, exec_val H my_eor ABSOLUTE_Y),
     (0x5D, exec_val H my_eor ABSOLUTE_X),
     (0x5E, exec_op H (my_lsr H) ABSOLUTE_X),
     (0x60, exec_b (my_rts H)),
     (0x61, exec_val H my_adc INDIRECT_X),
     (0x65, exec_val H my_adc ZEROPAGE),
     (0x66, exec_op H (my_ror H) ZEROPAGE),
     (0x68, exec_b (my_pla H)),
     (0x69, exec_val H my_adc IMMEDIATE),
     (0x6A, exec_op H (my_ror H) ACCUMULATOR),
     (0x6C, exec_addr_r H my_jmp INDIRECT),
     (0x6D, exec_val H my_adc ABSOLUTE),
     (0x6E, exec_op H (my_ror H) ABSOLUTE),
     (0x70, exec_addr_r H my_bvs RELATIVE),
     (0x71, exec_val H my_adc INDIRECT_Y),
     (0x75, exec_val H my_adc ZEROPAGE_X),
     (0x76, exec_op H (my_ror H) ZEROPAGE_X),
     (0x78, exec_r my_sei),
     (0x79, exec_val H my_adc ABSOLUTE_Y),
     (0x7D, exec_val H my_adc ABSOLUTE_X),
     (0x7E, exec_op H (my_ror H) ABSOLUTE_X),
     (0x81, exec_addr_b H (my_sta H) INDIRECT_X),
     (0x84, exec_addr_b H (my_sty H) ZEROPAGE),
     (0x85, exec_addr_b H (my_sta H) ZEROPAGE),
     (0x86, exec_addr_b H (my_stx H) ZEROPAGE),
     (0x88, exec_r my_dey),
     (0x8A, exec_r my_txa),
     (0x8C, exec_addr_b H (my_sty H) ABSOLUTE),
     (0x8D, exec_addr_b H (my_sta H) ABSOLUTE),
     (0x8E, exec_addr_b H (my_stx H) ABSOLUTE),
     (0x90, exec_addr_r H my_bcc RELATIVE),
     (0x91, exec_addr_b H (my_sta H) INDIRECT_Y),
     (0x94, exec_addr_b H (my_sty H) ZEROPAGE_X),
     (0x95, exec_addr_b H (my_sta H) ZEROPAGE_X),
     (0x96, exec_addr_b H (my_stx H) ZEROPAGE_Y),
     (0x98, exec_r my_tya),
     (0x99, exec_addr_b H (my_sta H) ABSOLUTE_Y),
     (0x9A, exec_r my_txs),
     (0x9D, exec_addr_b H (my_sta H) ABSOLUTE_X),
     (0xA0, exec_val H my_ldy IMMEDIATE),
     (0xA1, exec_val H my_lda INDIRECT_X),
     (0xA2, exec_val H my_ldx IMMEDIATE),
     (0xA4, exec_val H my_ldy ZEROPAGE),
     (0xA5, exec_val H my_lda ZEROPAGE),
     (0xA6, exec_val H my_ldx ZEROPAGE),
     (0xA8, exec_r my_tay),
     (0xA9, exec_val H my_lda IMMEDIATE),
     (0xAA, exec_r my_tax),
     (0xAC, exec_val H my_ldy ABSOLUTE),
     (0xAD, exec_val H my_lda ABSOLUTE),
     (0xAE, exec_val H my_ldx ABSOLUTE),
     (0xB0, exec_addr_r H my_bcs RELATIVE),
     (0xB1, exec_val H my_lda INDIRECT_Y),
     (0xB4, exec_val H my_ldy ZEROPAGE_X),
     (0xB5, exec_val H my_lda ZEROPAGE_X),
     (0xB6, exec_val H my_ldx ZEROPAGE_Y),
     (0xB8, exec_r my_clv),
     (0xB9, exec_val H my_lda ABSOLUTE_Y),
     (0xBA, exec_r my_tsx),
     (0xBC, exec_val H my_ldy ABSOLUTE_X),
     (0xBD, exec_val H my_lda ABSOLUTE_X),
     (0xBE, exec_val H my_ldx ABSOLUTE_Y),
     (0xC0, exec_val H my_cpy IMMEDIATE),
     (0xC1, exec_val H my_cmp INDIRECT_X),
     (0xC4, exec_val H my_cpy ZEROPAGE),
     (0xC5, exec_val H my_cmp ZEROPAGE),
     (0xC6, exec_addr_b H (my_dec H) ZEROPAGE),
     (0xC8, exec_r my_iny),
     (0xC9, exec_val H my_cmp IMMEDIATE),
     (0xCA, exec_r my_dex),
     (0xCC, exec_val H my_cpy ABSOLUTE),
     (0xCD, exec_val H my_cmp ABSOLUTE),
     (0xCE, exec_addr_b H (my_dec H) ABSOLUTE),
     (0xD0, exec_addr_r H my_bne RELATIVE),
     (0xD1, exec_val H my_cmp INDIRECT_Y),
     (0xD5, exec_val H my_cmp ZEROPAGE_X),
     (0xD6, exec_addr_b H (my_dec H) ZEROPAGE_X),
     (0xD8, exec_r my_cld),
     (0xD9, exec_val H my_cmp ABSOLUTE_Y),
     (0xDD, exec_val H my_cmp ABSOLUTE_X),
     (0xDE, exec_addr_b H (my_dec H) ABSOLUTE_X),
     (0xE0, exec_val H my_cpx IMMEDIATE),
     (0xE1, exec_val H my_sbc INDIRECT_X),
     (0xE6, exec_addr_b H (my_inc H) ZEROPAGE),
     (0xE4, exec_val H my_cpx ZEROPAGE),
     (0xE5, exec_val H my_sbc ZEROPAGE),
     (0xE8, exec_r my_inx),
     (0xE9, exec_val H my_sbc IMMEDIATE),
     (0xEA, exec_r my_nop),
     (0xEC, exec_val H my_cpx ABSOLUTE),
     (0xED, exec_val H my_sbc ABSOLUTE),
     (0xEE, exec_addr_b H (my_inc H) ABSOLUTE),
     (0xF0, exec_addr_r H my_beq RELATIVE),
     (0xF1, exec_val H my_sbc INDIRECT_Y),
     (0xF5, exec_val H my_sbc ZEROPAGE_X),
     (0xF6, exec_addr_b H (my_inc H) ZEROPAGE_X),
     (0xF8, exec_r my_sed),
     (0xF9, exec_val H my_sbc ABSOLUTE_Y),
     (0xFD, exec_val H my_sbc ABSOLUTE_X),
     (0xFE, exec_addr_b H (my_inc H) ABSOLUTE_X)]"

text \<open>
  \<^verbatim>\<open>my6502_step\<close> fetches the opcode at \<^verbatim>\<open>my_pc++\<close> and runs its case; the \<^verbatim>\<open>default\<close>
  case is \<^verbatim>\<open>assert(0)\<close>, reached with the opcode fetched and \<^verbatim>\<open>my_pc\<close> incremented.
\<close>

definition my6502_step :: "'h host \<Rightarrow> cpu \<times> 'h \<Rightarrow> 'h failure + cpu \<times> 'h" where
  "my6502_step H = (\<lambda>(s, h).
     let (opcode, h1) = my6502_read H (my_pc s) h;
         s1 = s\<lparr>my_pc := my_pc s + 1\<rparr>
     in case map_of (opcodes H) opcode of
          Some action \<Rightarrow> action (s1, h1)
        | None \<Rightarrow> Inl (AssertFailed, s1, h1))"

section \<open>The harness\<close>

text \<open>
  The host of \<^verbatim>\<open>main.c\<close>: a 64 KiB array, and a line printed for every access.
\<close>

datatype access = Rd "16 word" "8 word" | Wr "16 word" "8 word"

definition harness :: "((16 word \<Rightarrow> 8 word) \<times> access list) host" where
  "harness =
     \<lparr>my6502_read = (\<lambda>a (m, tr). (m a, (m, tr @ [Rd a (m a)]))),
      my6502_write = (\<lambda>a v (m, tr). (m(a := v), tr @ [Wr a v]))\<rparr>"

text \<open>
  A bus that returns the same byte at every address and ignores writes (an address space
  filled with one value); it keeps no state.
\<close>

definition const_bus :: "8 word \<Rightarrow> unit host" where
  "const_bus k = \<lparr>my6502_read = (\<lambda>a h. (k, h)), my6502_write = (\<lambda>a v h. h)\<rparr>"

text \<open>A memory image: the listed bytes, zero elsewhere.\<close>

fun mem_image :: "(16 word \<times> 8 word) list \<Rightarrow> 16 word \<Rightarrow> 8 word" where
  "mem_image [] = (\<lambda>_. 0)"
| "mem_image ((a, v) # bs) = (mem_image bs)(a := v)"

text \<open>
  \<open>n\<close> successive calls of \<^verbatim>\<open>my6502_step\<close>, as the loop of \<^verbatim>\<open>main.c\<close> makes them; a failed
  assertion ends the run.
\<close>

fun run :: "'h host \<Rightarrow> nat \<Rightarrow> cpu \<times> 'h \<Rightarrow> 'h failure + cpu \<times> 'h" where
  "run H 0 st = Inr st"
| "run H (Suc n) st =
     (case my6502_step H st of Inl e \<Rightarrow> Inl e | Inr st1 \<Rightarrow> run H n st1)"

section \<open>The instruction set\<close>

text \<open>
  Modelled from the spec: the opcode bytes of the NMOS 6502 instruction set, which the
  sources only cite (the masswerk.at table); listed by mnemonic, in the standard encoding.
\<close>

definition nmos_opcodes :: "8 word list" where
  "nmos_opcodes =
    [0x69, 0x65, 0x75, 0x6D, 0x7D, 0x79, 0x61, 0x71,
     0x29, 0x25, 0x35, 0x2D, 0x3D, 0x39, 0x21, 0x31,
     0x0A, 0x06, 0x16, 0x0E, 0x1E,
     0x90, 0xB0, 0xF0,
     0x24, 0x2C,
     0x30, 0xD0, 0x10,
     0x00,
     0x50, 0x70,
     0x18, 0xD8, 0x58, 0xB8,
     0xC9, 0xC5, 0xD5, 0xCD, 0xDD, 0xD9, 0xC1, 0xD1,
     0xE0, 0xE4, 0xEC,
     0xC0, 0xC4, 0xCC,
     0xC6, 0xD6, 0xCE, 0xDE,
     0xCA, 0x88,
     0x49, 0x45, 0x55, 0x4D, 0x5D, 0x59, 0x41, 0x51,
     0xE6, 0xF6, 0xEE, 0xFE,
     0xE8, 0xC8,
     0x4C, 0x6C,
     0x20,
     0xA9, 0xA5, 0xB5, 0xAD, 0xBD, 0xB9, 0xA1, 0xB1,
     0xA2, 0xA6, 0xB6, 0xAE, 0xBE,
     0xA0, 0xA4, 0xB4, 0xAC, 0xBC,
     0x4A, 0x46, 0x56, 0x4E, 0x5E,
     0xEA,
     0x09, 0x05, 0x15, 0x0D, 0x1D, 0x19, 0x01, 0x11,
     0x48, 0x08, 0x68, 0x28,
     0x2A, 0x26, 0x36, 0x2E, 0x3E,
     0x6A, 0x66, 0x76, 0x6E, 0x7E,
     0x40, 0x60,
     0xE9, 0xE5, 0xF5, 0xED, 0xFD, 0xF9, 0xE1, 0xF1,
     0x38, 0xF8, 0x78,
     0x85, 0x95, 0x8D, 0x9D, 0x99, 0x81, 0x91,
     0x86, 0x96, 0x8E,
     0x84, 0x94, 0x8C,
     0xAA, 0xA8, 0xBA, 0x8A, 0x9A, 0x98]"

section \<open>Keeping the unused bit\<close>

text \<open>
  A routine keeps the unused bit when bit 5 of \<open>SR\<close>, if set before, is set after:
  for a routine on the registers, for a routine that also uses the bus, and for an action
  of the \<^verbatim>\<open>switch\<close> (when it does not abort).
\<close>

definition keeps_r :: "(cpu \<Rightarrow> cpu) \<Rightarrow> bool" where
  "keeps_r f \<longleftrightarrow> (\<forall>s. bit (my_sr s) 5 \<longrightarrow> bit (my_sr (f s)) 5)"

definition keeps_b :: "(cpu \<times> 'h \<Rightarrow> cpu \<times> 'h) \<Rightarrow> bool" where
  "keeps_b g \<longleftrightarrow> (\<forall>s h. bit (my_sr s) 5 \<longrightarrow> bit (my_sr (fst (g (s, h)))) 5)"

definition keeps :: "'h action \<Rightarrow> bool" where
  "keeps act \<longleftrightarrow>
     (\<forall>s h s' h'. act (s, h) = Inr (s', h') \<longrightarrow> bit (my_sr s) 5 \<longrightarrow> bit (my_sr s') 5)"

section \<open>Bits of the status register\<close>

lemmas SR_FLAG_defs =
  SR_FLAG_NEGATIVE_def SR_FLAG_OVERFLOW_def SR_FLAG_UNUSED_def SR_FLAG_BREAK_def
  SR_FLAG_DECIMAL_def SR_FLAG_INTERRUPT_def SR_FLAG_ZERO_def SR_FLAG_CARRY_def

lemma exp_mask_eq: "w AND 2 ^ n = (if bit w n then 2 ^ n else 0)" for w :: "'a::len word"
  by (rule bit_word_eqI) (auto simp: bit_simps)

lemma exp_bit8: "n < 8 \<Longrightarrow> bit (2 ^ n :: 8 word) m = (m = n)"
  by (auto simp: bit_simps)

lemma exp_test: "(w AND 2 ^ n = 0) = (\<not> bit w n)" for w :: "'a::len word"
  by (rule and_exp_eq_0_iff_not_bit)

lemma flag_bit:
  "bit SR_FLAG_NEGATIVE m = (m = 7)"
  "bit SR_FLAG_OVERFLOW m = (m = 6)"
  "bit SR_FLAG_UNUSED m = (m = 5)"
  "bit SR_FLAG_BREAK m = (m = 4)"
  "bit SR_FLAG_DECIMAL m = (m = 3)"
  "bit SR_FLAG_INTERRUPT m = (m = 2)"
  "bit SR_FLAG_ZERO m = (m = 1)"
  "bit SR_FLAG_CARRY m = (m = 0)"
  using exp_bit8 [of 7 m] exp_bit8 [of 6 m] exp_bit8 [of 5 m] exp_bit8 [of 4 m]
    exp_bit8 [of 3 m] exp_bit8 [of 2 m] exp_bit8 [of 1 m] exp_bit8 [of 0 m]
  by (simp_all add: SR_FLAG_defs)

lemma flag_test:
  "(w AND SR_FLAG_NEGATIVE = 0) = (\<not> bit w 7)"
  "(w AND SR_FLAG_OVERFLOW = 0) = (\<not> bit w 6)"
  "(w AND SR_FLAG_UNUSED = 0) = (\<not> bit w 5)"
  "(w AND SR_FLAG_BREAK = 0) = (\<not> bit w 4)"
  "(w AND SR_FLAG_DECIMAL = 0) = (\<not> bit w 3)"
  "(w AND SR_FLAG_INTERRUPT = 0) = (\<not> bit w 2)"
  "(w AND SR_FLAG_ZERO = 0) = (\<not> bit w 1)"
  "(w AND SR_FLAG_CARRY = 0) = (\<not> bit w 0)"
  using exp_test [of w 7] exp_test [of w 6] exp_test [of w 5] exp_test [of w 4]
    exp_test [of w 3] exp_test [of w 2] exp_test [of w 1] exp_test [of w 0]
  by (simp_all add: SR_FLAG_defs)

lemma flag_nonzero: "SR_FLAG_NEGATIVE \<noteq> 0" "SR_FLAG_ZERO \<noteq> 0"
  by (simp_all add: SR_FLAG_defs)

lemma SR_IS_SET_bits:
  "SR_IS_SET SR_FLAG_NEGATIVE s = bit (my_sr s) 7"
  "SR_IS_SET SR_FLAG_OVERFLOW s = bit (my_sr s) 6"
  "SR_IS_SET SR_FLAG_ZERO s = bit (my_sr s) 1"
  "SR_IS_SET SR_FLAG_CARRY s = bit (my_sr s) 0"
  by (simp_all add: SR_IS_SET_def flag_test)

lemma sign_test8: "(w AND 0x80 = 0) = (\<not> bit w 7)" for w :: "8 word"
  using exp_test [of w 7] by simp

lemma sign_test8_and: "(x AND y AND 0x80 = 0) = (\<not> (bit x 7 \<and> bit y 7))" for x y :: "8 word"
  using sign_test8 [of "x AND y"] by (simp add: and.assoc bit_and_iff)

lemma sign_mask8: "w AND 0x80 = (if bit w 7 then 0x80 else 0)" for w :: "8 word"
  using exp_mask_eq [of w 7] by simp

lemma sign_mask16: "w AND 0x80 = (if bit w 7 then 0x80 else 0)" for w :: "16 word"
  using exp_mask_eq [of w 7] by simp

lemma bit8_bound: "(bit w m \<and> m < 8) = bit w m" for w :: "8 word"
  by (auto dest: bit_imp_le_length)

lemma bit7_ucast_16_8: "bit (ucast w :: 8 word) 7 = bit w 7" for w :: "16 word"
  by (simp add: bit_simps)

lemma unat_ucast_16_8: "unat (ucast w :: 8 word) = unat w mod 256" for w :: "16 word"
  by (simp add: unsigned_ucast_eq take_bit_eq_mod)

lemma ge_0x100: "(0x100 \<le> w) = (256 \<le> unat w)" for w :: "16 word"
  by (simp add: word_le_nat_alt)

text \<open>The sum of two bytes and a carry fits in 16 bits.\<close>

lemma byte_sum_unat:
  fixes a b :: "8 word"
  shows "unat (ucast a + ucast b :: 16 word) = unat a + unat b"
    and "unat (ucast a + ucast b + 1 :: 16 word) = unat a + unat b + 1"
proof -
  have "unat a < 256" "unat b < 256"
    using unsigned_less [of a, where 'a = nat] unsigned_less [of b, where 'a = nat] by simp_all
  then show "unat (ucast a + ucast b :: 16 word) = unat a + unat b"
    and "unat (ucast a + ucast b + 1 :: 16 word) = unat a + unat b + 1"
    by (simp_all add: unat_word_ariths unsigned_ucast_eq take_bit_nat_eq_self)
qed

section \<open>Flag updates\<close>

lemma my_update_sr_regs:
  "my_pc (my_update_sr v f s) = my_pc s"
  "my_ac (my_update_sr v f s) = my_ac s"
  "my_x (my_update_sr v f s) = my_x s"
  "my_y (my_update_sr v f s) = my_y s"
  "my_sp (my_update_sr v f s) = my_sp s"
  by (simp_all add: my_update_sr_def SR_SET_def SR_CLR_def Let_def)

lemma my_update_sr_NZ_bit:
  "bit (my_sr (my_update_sr v (SR_FLAG_NEGATIVE OR SR_FLAG_ZERO) s)) m =
     (if m = 7 then bit v 7 else if m = 1 then v = 0 else bit (my_sr s) m)"
  by (simp add: my_update_sr_def SR_SET_def SR_CLR_def Let_def flag_nonzero sign_test8
      bit8_bound flag_bit bit_or_iff bit_and_iff bit_not_iff)

lemma my_update_sr_with_carry_regs:
  "my_pc (my_update_sr_with_carry v f c s) = my_pc s"
  "my_ac (my_update_sr_with_carry v f c s) = my_ac s"
  "my_x (my_update_sr_with_carry v f c s) = my_x s"
  "my_y (my_update_sr_with_carry v f c s) = my_y s"
  "my_sp (my_update_sr_with_carry v f c s) = my_sp s"
  by (simp_all add: my_update_sr_with_carry_def my_update_sr_regs SR_SET_def SR_CLR_def Let_def)

lemma my_update_sr_with_carry_NZ_bit:
  "bit (my_sr (my_update_sr_with_carry v (SR_FLAG_NEGATIVE OR SR_FLAG_ZERO) c s)) m =
     (if m = 0 then c \<noteq> 0
      else if m = 7 then bit v 7 else if m = 1 then v = 0 else bit (my_sr s) m)"
  by (simp add: my_update_sr_with_carry_def my_update_sr_NZ_bit SR_SET_def SR_CLR_def Let_def
      flag_bit bit_or_iff bit_and_iff bit_not_iff bit8_bound)

section \<open>Reset\<close>

text \<open>
  C10. For every prior register state and every entry address, \<^verbatim>\<open>my6502_reset\<close> sets
  \<open>PC\<close> to its argument, \<open>AC = X = Y = 0\<close>, \<open>SP = 0xFD\<close> and \<open>SR = 0x20\<close>, whatever the
  registers held before, and hands the host back as it was: it takes no callback, so it
  can neither read nor write the bus.
\<close>

theorem reset_sets_registers_only:
  "my6502_reset pc (s, h) =
     (\<lparr>my_pc = pc, my_ac = 0, my_x = 0, my_y = 0, my_sr = 0x20, my_sp = 0xFD\<rparr>, h)"
  by (simp add: my6502_reset_def SR_FLAG_UNUSED_def)

section \<open>Addition and subtraction\<close>

lemma my_adc_ac_eq:
  "my_ac (my_adc b s) =
     ucast (if SR_IS_SET SR_FLAG_CARRY s then ucast (my_ac s) + ucast b + 1
            else ucast (my_ac s) + ucast b :: 16 word)"
  by (simp add: my_adc_def Let_def my_update_sr_with_carry_regs)

lemma my_adc_sr_bit:
  "bit (my_sr (my_adc b s)) m =
     (let r = (if SR_IS_SET SR_FLAG_CARRY s then ucast (my_ac s) + ucast b + 1
               else ucast (my_ac s) + ucast b :: 16 word)
      in if m = 0 then 0x100 \<le> r
         else if m = 7 then bit r 7
         else if m = 1 then (ucast r :: 8 word) = 0
         else if m = 6 then bit (my_ac s) 7 = bit b 7 \<and> bit r 7 \<noteq> bit b 7
         else bit (my_sr s) m)"
  by (simp add: my_adc_def Let_def my_update_sr_with_carry_NZ_bit SR_SET_def SR_CLR_def
      flag_bit bit_or_iff bit_and_iff bit_not_iff sign_mask8 sign_mask16 bit7_ucast_16_8
      bit8_bound)

lemma my_adc_ac:
  "unat (my_ac (my_adc b s)) =
     (unat (my_ac s) + unat b + (if SR_IS_SET SR_FLAG_CARRY s then 1 else 0)) mod 256"
  by (simp add: my_adc_ac_eq unat_ucast_16_8 byte_sum_unat)

lemma my_adc_carry:
  "SR_IS_SET SR_FLAG_CARRY (my_adc b s) =
     (256 \<le> unat (my_ac s) + unat b + (if SR_IS_SET SR_FLAG_CARRY s then 1 else 0))"
  by (simp add: SR_IS_SET_bits(4) [of "my_adc b s"] my_adc_sr_bit ge_0x100 byte_sum_unat)

lemma my_adc_zero:
  "SR_IS_SET SR_FLAG_ZERO (my_adc b s) = (my_ac (my_adc b s) = 0)"
  by (simp add: SR_IS_SET_bits(3) [of "my_adc b s"] my_adc_sr_bit my_adc_ac_eq)

lemma my_adc_negative:
  "SR_IS_SET SR_FLAG_NEGATIVE (my_adc b s) = bit (my_ac (my_adc b s)) 7"
  by (simp add: SR_IS_SET_bits(1) [of "my_adc b s"] my_adc_sr_bit my_adc_ac_eq bit7_ucast_16_8)

lemma my_adc_overflow:
  "SR_IS_SET SR_FLAG_OVERFLOW (my_adc b s) =
     ((my_ac s XOR my_ac (my_adc b s)) AND (b XOR my_ac (my_adc b s)) AND 0x80 \<noteq> 0)"
  by (auto simp add: SR_IS_SET_bits(2) [of "my_adc b s"] my_adc_sr_bit my_adc_ac_eq
      sign_test8_and bit7_ucast_16_8 bit_xor_iff)

text \<open>
  C3. For every accumulator \<open>a = my_ac s\<close>, operand \<open>b\<close> and carry-in \<open>c\<close> (the C flag of
  \<open>s\<close>), \<^verbatim>\<open>my_adc\<close> leaves \<open>AC = (a + b + c) mod 256\<close>, \<open>C = (a + b + c \<ge> 256)\<close>,
  \<open>Z = (AC = 0)\<close>, \<open>N\<close> = bit 7 of \<open>AC\<close>, and \<open>V = (((a XOR AC) AND (b XOR AC) AND 0x80) \<noteq> 0)\<close>.
\<close>

theorem adc_result_and_flags:
  "unat (my_ac (my_adc b s)) =
     (unat (my_ac s) + unat b + (if SR_IS_SET SR_FLAG_CARRY s then 1 else 0)) mod 256
   \<and> SR_IS_SET SR_FLAG_CARRY (my_adc b s) =
     (256 \<le> unat (my_ac s) + unat b + (if SR_IS_SET SR_FLAG_CARRY s then 1 else 0))
   \<and> SR_IS_SET SR_FLAG_ZERO (my_adc b s) = (my_ac (my_adc b s) = 0)
   \<and> SR_IS_SET SR_FLAG_NEGATIVE (my_adc b s) = bit (my_ac (my_adc b s)) 7
   \<and> SR_IS_SET SR_FLAG_OVERFLOW (my_adc b s) =
     ((my_ac s XOR my_ac (my_adc b s)) AND (b XOR my_ac (my_adc b s)) AND 0x80 \<noteq> 0)"
  using my_adc_ac [of b s] my_adc_carry [of b s] my_adc_zero [of b s] my_adc_negative [of b s]
    my_adc_overflow [of b s]
  by blast

text \<open>
  C4. For every accumulator, operand \<open>b\<close> and carry-in, \<^verbatim>\<open>my_sbc\<close> with operand \<open>b\<close> ends
  in the very state \<^verbatim>\<open>my_adc\<close> with operand \<open>NOT b\<close> ends in: the same \<open>AC\<close> and the same
  \<open>N\<close>, \<open>V\<close>, \<open>Z\<close> and \<open>C\<close>, bit for bit, and so the same difference and borrow.
\<close>

theorem sbc_is_adc_of_complement:
  "my_sbc b s = my_adc (NOT b) s
   \<and> unat (my_ac (my_sbc b s)) =
       (unat (my_ac s) + (255 - unat b) + (if SR_IS_SET SR_FLAG_CARRY s then 1 else 0)) mod 256
   \<and> SR_IS_SET SR_FLAG_CARRY (my_sbc b s) =
       (256 \<le> unat (my_ac s) + (255 - unat b) + (if SR_IS_SET SR_FLAG_CARRY s then 1 else 0))"
proof -
  have "NOT b = 0xFF - b"
    by (simp add: not_eq_complement)
  moreover have "b \<le> 0xFF"
    using unsigned_less [of b, where 'a = nat] by (simp add: word_le_nat_alt)
  ultimately have "unat (NOT b) = 255 - unat b"
    using unat_sub [of b "0xFF"] by simp
  then show ?thesis
    by (simp add: my_sbc_def my_adc_ac my_adc_carry)
qed

section \<open>The operand of an instruction\<close>

lemma ucast_pack_op: "(ucast (pack_op a mode v) :: 8 word) = v"
  by (rule bit_word_eqI) (auto simp: pack_op_def bit_simps)

text \<open>\<^verbatim>\<open>ADC #b\<close> and \<^verbatim>\<open>SBC #b\<close>: the step runs the routine on the byte after the opcode.\<close>

lemma adc_immediate_step:
  assumes "my6502_read H (my_pc s) h = (0x69, h1)"
    and "my6502_read H (my_pc s + 1) h1 = (b, h2)"
  shows "my6502_step H (s, h) = Inr (my_adc b (s\<lparr>my_pc := my_pc s + 2\<rparr>), h2)"
proof -
  have lookup: "map_of (opcodes H) 0x69 = Some (exec_val H my_adc IMMEDIATE)"
    by (simp add: opcodes_def)
  have pc: "my_pc s + 1 + 1 = my_pc s + 2"
    by simp
  show ?thesis
    using assms by (simp add: my6502_step_def lookup exec_val_def Let_def ucast_pack_op pc)
qed

lemma sbc_immediate_step:
  assumes "my6502_read H (my_pc s) h = (0xE9, h1)"
    and "my6502_read H (my_pc s + 1) h1 = (b, h2)"
  shows "my6502_step H (s, h) = Inr (my_sbc b (s\<lparr>my_pc := my_pc s + 2\<rparr>), h2)"
proof -
  have lookup: "map_of (opcodes H) 0xE9 = Some (exec_val H my_sbc IMMEDIATE)"
    by (simp add: opcodes_def)
  have pc: "my_pc s + 1 + 1 = my_pc s + 2"
    by simp
  show ?thesis
    using assms by (simp add: my6502_step_def lookup exec_val_def Let_def ucast_pack_op pc)
qed

text \<open>
  \<^verbatim>\<open>ADC #$50\<close> with \<open>AC = 0x50\<close> and the carry clear, on the harness: \<open>AC = 0xA0\<close> with
  \<open>N\<close> and \<open>V\<close> set, \<open>C\<close> and \<open>Z\<close> clear.
\<close>

lemma adc_overflow_example:
  "my6502_step harness
     (\<lparr>my_pc = 0x0400, my_ac = 0x50, my_x = 0, my_y = 0, my_sr = 0x20, my_sp = 0xFD\<rparr>,
      mem_image [(0x0400, 0x69), (0x0401, 0x50)], []) =
   Inr (\<lparr>my_pc = 0x0402, my_ac = 0xA0, my_x = 0, my_y = 0, my_sr = 0xE0, my_sp = 0xFD\<rparr>,
      mem_image [(0x0400, 0x69), (0x0401, 0x50)], [Rd 0x0400 0x69, Rd 0x0401 0x50])"
proof -
  have "map_of (opcodes harness) 0x69 = Some (exec_val harness my_adc IMMEDIATE)"
    by (simp add: opcodes_def)
  then show ?thesis
    by (simp add: my6502_step_def exec_val_def harness_def ucast_pack_op my_adc_def
        my_update_sr_with_carry_def my_update_sr_def SR_SET_def SR_CLR_def SR_IS_SET_def
        SR_FLAG_defs)
qed

section \<open>Zero-page indexed addressing\<close>

lemma zp_sum_unat:
  "unat ((ucast b + ucast x :: 16 word) AND 0xFF) = (unat b + unat x) mod 256" for b x :: "8 word"
proof -
  have "(ucast b + ucast x :: 16 word) AND 0xFF = take_bit 8 (ucast b + ucast x)"
    by (simp add: take_bit_eq_mask mask_eq_exp_minus_1)
  then show ?thesis
    by (simp add: take_bit_eq_mod unat_mod_distrib byte_sum_unat)
qed

lemma zp_sum_page: "(ucast b + ucast x :: 16 word) AND 0xFF < 0x100" for b x :: "8 word"
  by (simp add: word_less_nat_alt zp_sum_unat)

text \<open>
  C8. For every operand byte \<open>base\<close> the bus returns at \<open>PC\<close> and every index register,
  \<^verbatim>\<open>my_read_addr\<close> in the modes \<^verbatim>\<open>ZEROPAGE_X\<close> and \<^verbatim>\<open>ZEROPAGE_Y\<close> succeeds, advances
  \<open>PC\<close> by one, reads the bus once, and returns the address \<open>(base + idx) mod 256\<close>,
  which lies in page 0.
\<close>

theorem zeropage_indexed_wraps:
  "(\<exists>a. my_read_addr H ZEROPAGE_X (s, h) =
          Inr (a, s\<lparr>my_pc := my_pc s + 1\<rparr>, snd (my6502_read H (my_pc s) h))
        \<and> unat a = (unat (fst (my6502_read H (my_pc s) h)) + unat (my_x s)) mod 256
        \<and> a < 0x100)
   \<and> (\<exists>a. my_read_addr H ZEROPAGE_Y (s, h) =
          Inr (a, s\<lparr>my_pc := my_pc s + 1\<rparr>, snd (my6502_read H (my_pc s) h))
        \<and> unat a = (unat (fst (my6502_read H (my_pc s) h)) + unat (my_y s)) mod 256
        \<and> a < 0x100)"
  by (simp add: case_prod_unfold Let_def zp_sum_unat zp_sum_page)

text \<open>
  \<^verbatim>\<open>LDA $81,X\<close> with \<open>X = 0xFF\<close>, on the harness: the operand is read at \<open>0x0080\<close>.
\<close>

lemma zero_page_x_example:
  "my6502_step harness
     (\<lparr>my_pc = 0x0400, my_ac = 0, my_x = 0xFF, my_y = 0, my_sr = 0x20, my_sp = 0xFD\<rparr>,
      mem_image [(0x0080, 0x99), (0x0400, 0xB5), (0x0401, 0x81)], []) =
   Inr (\<lparr>my_pc = 0x0402, my_ac = 0x99, my_x = 0xFF, my_y = 0, my_sr = 0xA0, my_sp = 0xFD\<rparr>,
      mem_image [(0x0080, 0x99), (0x0400, 0xB5), (0x0401, 0x81)],
      [Rd 0x0400 0xB5, Rd 0x0401 0x81, Rd 0x0080 0x99])"
proof -
  have "map_of (opcodes harness) 0xB5 = Some (exec_val harness my_lda ZEROPAGE_X)"
    by (simp add: opcodes_def)
  then show ?thesis
    by (simp add: my6502_step_def exec_val_def read_op_at_def harness_def ucast_pack_op
        my_lda_def my_update_sr_def SR_SET_def SR_CLR_def SR_FLAG_defs)
qed

section \<open>Branches\<close>

text \<open>
  A step whose case is a register-only routine applied to \<^verbatim>\<open>my_read_addr(RELATIVE)\<close>,
  when the routine either does nothing or assigns \<open>PC\<close>.
\<close>

lemma branch_step:
  assumes "map_of (opcodes H) (fst (my6502_read H (my_pc s) h)) = Some (exec_addr_r H f RELATIVE)"
    and "\<And>a t. f a t = t \<or> f a t = t\<lparr>my_pc := a\<rparr>"
  shows "\<exists>pc. my6502_step H (s, h) =
     Inr (s\<lparr>my_pc := pc\<rparr>, snd (my6502_read H (my_pc s + 1) (snd (my6502_read H (my_pc s) h))))"
proof -
  let ?h1 = "snd (my6502_read H (my_pc s) h)"
  let ?b = "fst (my6502_read H (my_pc s + 1) ?h1)"
  let ?h2 = "snd (my6502_read H (my_pc s + 1) ?h1)"
  let ?s2 = "s\<lparr>my_pc := my_pc s + 1 + 1\<rparr>"
  have step: "my6502_step H (s, h) = Inr (f (my_pc s + 1 + 1 + scast ?b) ?s2, ?h2)"
    using assms(1) by (simp add: my6502_step_def case_prod_unfold Let_def exec_addr_r_def)
  from assms(2) [of "my_pc s + 1 + 1 + scast ?b" ?s2] show ?thesis
  proof
    assume "f (my_pc s + 1 + 1 + scast ?b) ?s2 = ?s2"
    with step have "my6502_step H (s, h) = Inr (s\<lparr>my_pc := my_pc s + 1 + 1\<rparr>, ?h2)" by simp
    then show ?thesis by blast
  next
    assume "f (my_pc s + 1 + 1 + scast ?b) ?s2 = ?s2\<lparr>my_pc := my_pc s + 1 + 1 + scast ?b\<rparr>"
    with step have "my6502_step H (s, h) = Inr (s\<lparr>my_pc := my_pc s + 1 + 1 + scast ?b\<rparr>, ?h2)"
      by simp
    then show ?thesis by blast
  qed
qed

lemma branch_handlers:
  "my_bpl a t = t \<or> my_bpl a t = t\<lparr>my_pc := a\<rparr>"
  "my_bmi a t = t \<or> my_bmi a t = t\<lparr>my_pc := a\<rparr>"
  "my_bvc a t = t \<or> my_bvc a t = t\<lparr>my_pc := a\<rparr>"
  "my_bvs a t = t \<or> my_bvs a t = t\<lparr>my_pc := a\<rparr>"
  "my_bcc a t = t \<or> my_bcc a t = t\<lparr>my_pc := a\<rparr>"
  "my_bcs a t = t \<or> my_bcs a t = t\<lparr>my_pc := a\<rparr>"
  "my_bne a t = t \<or> my_bne a t = t\<lparr>my_pc := a\<rparr>"
  "my_beq a t = t \<or> my_beq a t = t\<lparr>my_pc := a\<rparr>"
  by (simp_all add: my_bpl_def my_bmi_def my_bvc_def my_bvs_def my_bcc_def my_bcs_def
      my_bne_def my_beq_def)

lemma branch_lookup:
  "map_of (opcodes H) 0x10 = Some (exec_addr_r H my_bpl RELATIVE)"
  "map_of (opcodes H) 0x30 = Some (exec_addr_r H my_bmi RELATIVE)"
  "map_of (opcodes H) 0x50 = Some (exec_addr_r H my_bvc RELATIVE)"
  "map_of (opcodes H) 0x70 = Some (exec_addr_r H my_bvs RELATIVE)"
  "map_of (opcodes H) 0x90 = Some (exec_addr_r H my_bcc RELATIVE)"
  "map_of (opcodes H) 0xB0 = Some (exec_addr_r H my_bcs RELATIVE)"
  "map_of (opcodes H) 0xD0 = Some (exec_addr_r H my_bne RELATIVE)"
  "map_of (opcodes H) 0xF0 = Some (exec_addr_r H my_beq RELATIVE)"
  by (simp_all add: opcodes_def)

text \<open>
  C9. When the opcode fetched at \<open>PC\<close> is one of the eight branches (\<^verbatim>\<open>BPL\<close> \<open>0x10\<close>,
  \<^verbatim>\<open>BMI\<close> \<open>0x30\<close>, \<^verbatim>\<open>BVC\<close> \<open>0x50\<close>, \<^verbatim>\<open>BVS\<close> \<open>0x70\<close>, \<^verbatim>\<open>BCC\<close> \<open>0x90\<close>, \<^verbatim>\<open>BCS\<close> \<open>0xB0\<close>,
  \<^verbatim>\<open>BNE\<close> \<open>0xD0\<close>, \<^verbatim>\<open>BEQ\<close> \<open>0xF0\<close>), the step succeeds and, taken or not, changes
  no register but \<open>PC\<close>: \<open>AC\<close>, \<open>X\<close>, \<open>Y\<close>, \<open>SP\<close> and \<open>SR\<close> are as before. The host
  it returns is the one left by the read of the opcode at \<open>PC\<close> followed by the read of
  the offset at \<open>PC + 1\<close>: the bus sees these two reads and nothing else.
\<close>

theorem branch_changes_pc_only:
  assumes "fst (my6502_read H (my_pc s) h) \<in> {0x10, 0x30, 0x50, 0x70, 0x90, 0xB0, 0xD0, 0xF0}"
  shows "\<exists>pc. my6502_step H (s, h) =
     Inr (s\<lparr>my_pc := pc\<rparr>, snd (my6502_read H (my_pc s + 1) (snd (my6502_read H (my_pc s) h))))"
proof -
  let ?op = "fst (my6502_read H (my_pc s) h)"
  from assms consider
      (bpl) "?op = 0x10" | (bmi) "?op = 0x30" | (bvc) "?op = 0x50" | (bvs) "?op = 0x70"
    | (bcc) "?op = 0x90" | (bcs) "?op = 0xB0" | (bne) "?op = 0xD0" | (beq) "?op = 0xF0"
    by auto
  then show ?thesis
  proof cases
    case bpl
    then show ?thesis
      by (intro branch_step [where f = my_bpl]) (simp_all add: branch_lookup branch_handlers)
  next
    case bmi
    then show ?thesis
      by (intro branch_step [where f = my_bmi]) (simp_all add: branch_lookup branch_handlers)
  next
    case bvc
    then show ?thesis
      by (intro branch_step [where f = my_bvc]) (simp_all add: branch_lookup branch_handlers)
  next
    case bvs
    then show ?thesis
      by (intro branch_step [where f = my_bvs]) (simp_all add: branch_lookup branch_handlers)
  next
    case bcc
    then show ?thesis
      by (intro branch_step [where f = my_bcc]) (simp_all add: branch_lookup branch_handlers)
  next
    case bcs
    then show ?thesis
      by (intro branch_step [where f = my_bcs]) (simp_all add: branch_lookup branch_handlers)
  next
    case bne
    then show ?thesis
      by (intro branch_step [where f = my_bne]) (simp_all add: branch_lookup branch_handlers)
  next
    case beq
    then show ?thesis
      by (intro branch_step [where f = my_beq]) (simp_all add: branch_lookup branch_handlers)
  qed
qed

text \<open>
  \<^verbatim>\<open>BEQ +2\<close> at \<open>0x0402\<close> with \<open>Z\<close> set, on the harness: the branch is taken to \<open>0x0406\<close>,
  the other registers stay, and the trace holds the two reads.
\<close>

theorem branch_changes_pc_only_witness:
  "my6502_step harness
     (\<lparr>my_pc = 0x0402, my_ac = 0, my_x = 0, my_y = 0, my_sr = 0x22, my_sp = 0xFD\<rparr>,
      mem_image [(0x0402, 0xF0), (0x0403, 0x02)], []) =
   Inr (\<lparr>my_pc = 0x0406, my_ac = 0, my_x = 0, my_y = 0, my_sr = 0x22, my_sp = 0xFD\<rparr>,
      mem_image [(0x0402, 0xF0), (0x0403, 0x02)], [Rd 0x0402 0xF0, Rd 0x0403 0x02])"
  using branch_changes_pc_only [of harness
      "\<lparr>my_pc = 0x0402, my_ac = 0, my_x = 0, my_y = 0, my_sr = 0x22, my_sp = 0xFD\<rparr>"
      "(mem_image [(0x0402, 0xF0), (0x0403, 0x02)], [])"]
  by (simp add: harness_def my6502_step_def opcodes_def exec_addr_r_def my_beq_def
      SR_IS_SET_def SR_FLAG_defs)

section \<open>Subroutine call and return\<close>

lemma bytes_of_addr: "ucast (ucast w :: 8 word) OR push_bit 8 (ucast (ucast (drop_bit 8 w) :: 8 word)) = w"
  for w :: "16 word"
  by (rule bit_word_eqI) (auto simp: bit_simps)

lemma run_2:
  "run H 2 st = (case my6502_step H st of Inl e \<Rightarrow> Inl e | Inr st1 \<Rightarrow> my6502_step H st1)"
  by (simp add: numeral_2_eq_2 split: sum.split)

lemma jsr_lookup: "map_of (opcodes H) 0x20 = Some (exec_addr_b H (my_jsr H) ABSOLUTE)"
  by (simp add: opcodes_def)

lemma rts_lookup: "map_of (opcodes H) 0x60 = Some (exec_b (my_rts H))"
  by (simp add: opcodes_def)

lemma jsr_step:
  assumes "my6502_read H (my_pc s) h = (0x20, h1)"
    and "my6502_read H (my_pc s + 1) h1 = (lo, h2)"
    and "my6502_read H (my_pc s + 2) h2 = (hi, h3)"
  shows "my6502_step H (s, h) =
     Inr (s\<lparr>my_pc := ucast lo OR push_bit 8 (ucast hi), my_sp := my_sp s - 2\<rparr>,
          my6502_write H (STACK_OFFSET + ucast (my_sp s - 1)) (ucast (my_pc s + 2))
            (my6502_write H (STACK_OFFSET + ucast (my_sp s)) (ucast (drop_bit 8 (my_pc s + 2))) h3))"
proof -
  have pc: "my_pc s + 1 + 1 = my_pc s + 2" "2 + my_pc s = my_pc s + 2"
    by simp_all
  have sp: "my_sp s - 1 - 1 = my_sp s - 2"
    by simp
  show ?thesis
    using assms
    by (simp add: my6502_step_def jsr_lookup exec_addr_b_def my_read_addr_from_mem_def
        my_jsr_def my_push_def Let_def pc sp)
qed

lemma rts_step:
  assumes "my6502_read H (my_pc s) h = (0x60, h1)"
    and "my6502_read H (STACK_OFFSET + ucast (my_sp s + 1)) h1 = (lo, h2)"
    and "my6502_read H (STACK_OFFSET + ucast (my_sp s + 2)) h2 = (hi, h3)"
  shows "my6502_step H (s, h) =
     Inr (s\<lparr>my_pc := (ucast lo OR push_bit 8 (ucast hi)) + 1, my_sp := my_sp s + 2\<rparr>, h3)"
proof -
  have sp: "my_sp s + 1 + 1 = my_sp s + 2"
    by simp
  show ?thesis
    using assms
    by (simp add: my6502_step_def rts_lookup exec_b_def my_rts_def my_pop_def Let_def sp)
qed

text \<open>
  C5. Let the \<^verbatim>\<open>JSR\<close> instruction (opcode \<open>0x20\<close>, then the target low and high) lie at
  \<open>p = my_pc s\<close>. The step pushes \<open>p + 2\<close>, the address of the last byte of the
  instruction: the high byte first, at \<open>0x100 + SP\<close>, then the low byte, at
  \<open>0x100 + (SP - 1)\<close>, and jumps to the target with \<open>SP - 2\<close>. Now take any later state
  \<open>t\<close> of the registers and any later host \<open>g\<close>, whatever ran in between, such that the
  stack is as the \<^verbatim>\<open>JSR\<close> left it: the stack pointer of \<open>t\<close> is \<open>SP - 2\<close> again and the
  bus returns the two bytes that were pushed. When the opcode at the program counter of
  \<open>t\<close> is \<^verbatim>\<open>RTS\<close> (\<open>0x60\<close>), the step leaves \<open>PC = p + 3\<close>, the byte after the \<^verbatim>\<open>JSR\<close>
  instruction, the stack pointer \<open>SP\<close> of before the \<^verbatim>\<open>JSR\<close>, and every other register as
  in \<open>t\<close>.
\<close>

theorem jsr_then_rts_returns_after_jsr:
  assumes "my6502_read H (my_pc s) h = (0x20, h1)"
    and "my6502_read H (my_pc s + 1) h1 = (lo, h2)"
    and "my6502_read H (my_pc s + 2) h2 = (hi, h3)"
    and "h4 = my6502_write H (STACK_OFFSET + ucast (my_sp s)) (ucast (drop_bit 8 (my_pc s + 2))) h3"
    and "h5 = my6502_write H (STACK_OFFSET + ucast (my_sp s - 1)) (ucast (my_pc s + 2)) h4"
    and "my_sp t = my_sp s - 2"
    and "my6502_read H (my_pc t) g = (0x60, g1)"
    and "my6502_read H (STACK_OFFSET + ucast (my_sp s - 1)) g1 = (ucast (my_pc s + 2), g2)"
    and "my6502_read H (STACK_OFFSET + ucast (my_sp s)) g2 = (ucast (drop_bit 8 (my_pc s + 2)), g3)"
  shows "my6502_step H (s, h) =
       Inr (s\<lparr>my_pc := ucast lo OR push_bit 8 (ucast hi), my_sp := my_sp s - 2\<rparr>, h5)
     \<and> my6502_step H (t, g) = Inr (t\<lparr>my_pc := my_pc s + 3, my_sp := my_sp s\<rparr>, g3)"
proof -
  have jsr: "my6502_step H (s, h) =
      Inr (s\<lparr>my_pc := ucast lo OR push_bit 8 (ucast hi), my_sp := my_sp s - 2\<rparr>, h5)"
    using jsr_step [OF assms(1-3)] assms(4,5) by simp
  have sp: "my_sp t + 1 = my_sp s - 1" "my_sp t + 2 = my_sp s"
    using assms(6) by simp_all
  have "my6502_step H (t, g) =
      Inr (t\<lparr>my_pc := (ucast (ucast (my_pc s + 2) :: 8 word) OR
             push_bit 8 (ucast (ucast (drop_bit 8 (my_pc s + 2)) :: 8 word))) + 1,
           my_sp := my_sp t + 2\<rparr>, g3)"
    using assms(7-9) by (intro rts_step) (simp_all add: sp)
  then have rts: "my6502_step H (t, g) = Inr (t\<lparr>my_pc := my_pc s + 3, my_sp := my_sp s\<rparr>, g3)"
    by (simp add: bytes_of_addr sp)
  from jsr rts show ?thesis
    by simp
qed

text \<open>
  The program \<^verbatim>\<open>0400: 20 05 04\<close>, \<^verbatim>\<open>0405: A9 42 60\<close> on the harness: \<^verbatim>\<open>JSR $0405\<close> pushes
  \<open>0x04\<close> at \<open>0x01FD\<close> and \<open>0x02\<close> at \<open>0x01FC\<close>; the subroutine loads \<open>0x42\<close>; its \<^verbatim>\<open>RTS\<close>,
  from the state the load leaves, returns to \<open>0x0403\<close> with the stack pointer \<open>0xFD\<close> again.
\<close>

theorem jsr_then_rts_witness:
  "my6502_step harness
     (\<lparr>my_pc = 0x0400, my_ac = 0, my_x = 0, my_y = 0, my_sr = 0x20, my_sp = 0xFD\<rparr>,
      mem_image [(0x0400, 0x20), (0x0401, 0x05), (0x0402, 0x04), (0x0405, 0xA9), (0x0406, 0x42),
        (0x0407, 0x60)], []) =
   Inr (\<lparr>my_pc = 0x0405, my_ac = 0, my_x = 0, my_y = 0, my_sr = 0x20, my_sp = 0xFB\<rparr>,
      (mem_image [(0x0400, 0x20), (0x0401, 0x05), (0x0402, 0x04), (0x0405, 0xA9), (0x0406, 0x42),
        (0x0407, 0x60)])(0x01FD := 0x04, 0x01FC := 0x02),
      [Rd 0x0400 0x20, Rd 0x0401 0x05, Rd 0x0402 0x04, Wr 0x01FD 0x04, Wr 0x01FC 0x02])
   \<and> my6502_step harness
     (\<lparr>my_pc = 0x0405, my_ac = 0, my_x = 0, my_y = 0, my_sr = 0x20, my_sp = 0xFB\<rparr>,
      (mem_image [(0x0400, 0x20), (0x0401, 0x05), (0x0402, 0x04), (0x0405, 0xA9), (0x0406, 0x42),
        (0x0407, 0x60)])(0x01FD := 0x04, 0x01FC := 0x02),
      [Rd 0x0400 0x20, Rd 0x0401 0x05, Rd 0x0402 0x04, Wr 0x01FD 0x04, Wr 0x01FC 0x02]) =
   Inr (\<lparr>my_pc = 0x0407, my_ac = 0x42, my_x = 0, my_y = 0, my_sr = 0x20, my_sp = 0xFB\<rparr>,
      (mem_image [(0x0400, 0x20), (0x0401, 0x05), (0x0402, 0x04), (0x0405, 0xA9), (0x0406, 0x42),
        (0x0407, 0x60)])(0x01FD := 0x04, 0x01FC := 0x02),
      [Rd 0x0400 0x20, Rd 0x0401 0x05, Rd 0x0402 0x04, Wr 0x01FD 0x04, Wr 0x01FC 0x02,
       Rd 0x0405 0xA9, Rd 0x0406 0x42])
   \<and> my6502_step harness
     (\<lparr>my_pc = 0x0407, my_ac = 0x42, my_x = 0, my_y = 0, my_sr = 0x20, my_sp = 0xFB\<rparr>,
      (mem_image [(0x0400, 0x20), (0x0401, 0x05), (0x0402, 0x04), (0x0405, 0xA9), (0x0406, 0x42),
        (0x0407, 0x60)])(0x01FD := 0x04, 0x01FC := 0x02),
      [Rd 0x0400 0x20, Rd 0x0401 0x05, Rd 0x0402 0x04, Wr 0x01FD 0x04, Wr 0x01FC 0x02,
       Rd 0x0405 0xA9, Rd 0x0406 0x42]) =
   Inr (\<lparr>my_pc = 0x0403, my_ac = 0x42, my_x = 0, my_y = 0, my_sr = 0x20, my_sp = 0xFD\<rparr>,
      (mem_image [(0x0400, 0x20), (0x0401, 0x05), (0x0402, 0x04), (0x0405, 0xA9), (0x0406, 0x42),
        (0x0407, 0x60)])(0x01FD := 0x04, 0x01FC := 0x02),
      [Rd 0x0400 0x20, Rd 0x0401 0x05, Rd 0x0402 0x04, Wr 0x01FD 0x04, Wr 0x01FC 0x02,
       Rd 0x0405 0xA9, Rd 0x0406 0x42, Rd 0x0407 0x60, Rd 0x01FC 0x02, Rd 0x01FD 0x04])"
proof -
  let ?m = "mem_image [(0x0400, 0x20), (0x0401, 0x05), (0x0402, 0x04), (0x0405, 0xA9),
    (0x0406, 0x42), (0x0407, 0x60)]"
  let ?m' = "?m(0x01FD := 0x04, 0x01FC := 0x02)"
  let ?s = "\<lparr>my_pc = 0x0400, my_ac = 0, my_x = 0, my_y = 0, my_sr = 0x20, my_sp = 0xFD\<rparr>"
  let ?t = "\<lparr>my_pc = 0x0407, my_ac = 0x42, my_x = 0, my_y = 0, my_sr = 0x20, my_sp = 0xFB\<rparr>"
  let ?tr = "[Rd 0x0400 0x20, Rd 0x0401 0x05, Rd 0x0402 0x04, Wr 0x01FD 0x04, Wr 0x01FC 0x02]"
  let ?tr' = "?tr @ [Rd 0x0405 0xA9, Rd 0x0406 0x42]"
  have low: "(1026 :: 8 word) = 2"
    by simp
  have call_return:
    "my6502_step harness (?s, ?m, []) =
       Inr (?s\<lparr>my_pc := ucast (0x05 :: 8 word) OR push_bit 8 (ucast (0x04 :: 8 word)),
              my_sp := my_sp ?s - 2\<rparr>, ?m', ?tr)
     \<and> my6502_step harness (?t, ?m', ?tr') =
       Inr (?t\<lparr>my_pc := my_pc ?s + 3, my_sp := my_sp ?s\<rparr>, ?m',
            ?tr' @ [Rd 0x0407 0x60, Rd 0x01FC 0x02, Rd 0x01FD 0x04])"
    by (rule jsr_then_rts_returns_after_jsr [where
          ?h1.0 = "(?m, [Rd 0x0400 0x20])"
          and ?h2.0 = "(?m, [Rd 0x0400 0x20, Rd 0x0401 0x05])"
          and ?h3.0 = "(?m, [Rd 0x0400 0x20, Rd 0x0401 0x05, Rd 0x0402 0x04])"
          and ?h4.0 = "(?m(0x01FD := 0x04),
            [Rd 0x0400 0x20, Rd 0x0401 0x05, Rd 0x0402 0x04, Wr 0x01FD 0x04])"
          and ?g1.0 = "(?m', ?tr' @ [Rd 0x0407 0x60])"
          and ?g2.0 = "(?m', ?tr' @ [Rd 0x0407 0x60, Rd 0x01FC 0x02])"])
      (simp_all add: harness_def STACK_OFFSET_def low)
  have body: "my6502_step harness
      (\<lparr>my_pc = 0x0405, my_ac = 0, my_x = 0, my_y = 0, my_sr = 0x20, my_sp = 0xFB\<rparr>, ?m', ?tr) =
      Inr (?t, ?m', ?tr')"
  proof -
    have "map_of (opcodes harness) 0xA9 = Some (exec_val harness my_lda IMMEDIATE)"
      by (simp add: opcodes_def)
    then show ?thesis
      by (simp add: my6502_step_def exec_val_def harness_def ucast_pack_op my_lda_def
          my_update_sr_def SR_SET_def SR_CLR_def SR_FLAG_defs)
  qed
  from call_return body show ?thesis
    by simp
qed

section \<open>Opcodes without a case\<close>

lemma opcodes_keys:
  "map fst (opcodes H) =
    [0x00, 0x01, 0x05, 0x06, 0x08, 0x09, 0x0A, 0x0D, 0x0E, 0x10, 0x11, 0x15, 0x16, 0x18, 0x19,
     0x1D, 0x1E, 0x20, 0x21, 0x24, 0x25, 0x26, 0x28, 0x29, 0x2A, 0x2C, 0x2D, 0x2E, 0x30, 0x31,
     0x35, 0x36, 0x38, 0x39, 0x3D, 0x3E, 0x40, 0x41, 0x45, 0x46, 0x48, 0x49, 0x4A, 0x4C, 0x4D,
     0x4E, 0x50, 0x51, 0x55, 0x56, 0x58, 0x59, 0x5D, 0x5E, 0x60, 0x61, 0x65, 0x66, 0x68, 0x69,
     0x6A, 0x6C, 0x6D, 0x6E, 0x70, 0x71, 0x75, 0x76, 0x78, 0x79, 0x7D, 0x7E, 0x81, 0x84, 0x85,
     0x86, 0x88, 0x8A, 0x8C, 0x8D, 0x8E, 0x90, 0x91, 0x94, 0x95, 0x96, 0x98, 0x99, 0x9A, 0x9D,
     0xA0, 0xA1, 0xA2, 0xA4, 0xA5, 0xA6, 0xA8, 0xA9, 0xAA, 0xAC, 0xAD, 0xAE, 0xB0, 0xB1, 0xB4,
     0xB5, 0xB6, 0xB8, 0xB9, 0xBA, 0xBC, 0xBD, 0xBE, 0xC0, 0xC1, 0xC4, 0xC5, 0xC6, 0xC8, 0xC9,
     0xCA, 0xCC, 0xCD, 0xCE, 0xD0, 0xD1, 0xD5, 0xD6, 0xD8, 0xD9, 0xDD, 0xDE, 0xE0, 0xE1, 0xE6,
     0xE4, 0xE5, 0xE8, 0xE9, 0xEA, 0xEC, 0xED, 0xEE, 0xF0, 0xF1, 0xF5, 0xF6, 0xF8, 0xF9, 0xFD,
     0xFE]"
  by (simp add: opcodes_def)

text \<open>The \<^verbatim>\<open>switch\<close> has a case for every opcode of the instruction set, and for no other.\<close>

lemma opcodes_cover_nmos: "set nmos_opcodes \<subseteq> fst ` set (opcodes H)"
  unfolding set_map [symmetric] opcodes_keys by (simp add: nmos_opcodes_def)

lemma opcodes_within_nmos: "fst ` set (opcodes H) \<subseteq> set nmos_opcodes"
  unfolding set_map [symmetric] opcodes_keys by (simp add: nmos_opcodes_def)

lemma no_case_iff: "map_of (opcodes H) opcode = None \<longleftrightarrow> opcode \<notin> set nmos_opcodes"
  using opcodes_cover_nmos [of H] opcodes_within_nmos [of H]
  by (auto simp: map_of_eq_None_iff)

text \<open>
  C7, as the code has it. For every opcode byte that is not in the NMOS 6502 instruction
  set, the step fails: it reaches the \<^verbatim>\<open>default\<close> case, whose \<^verbatim>\<open>assert(0)\<close> aborts the
  process, so nothing runs after it. The failure is the bare assertion failure. The
  registers at the failure are preserved: \<open>AC\<close>, \<open>X\<close>, \<open>Y\<close>, \<open>SR\<close> and \<open>SP\<close> are as
  before the step and \<open>PC\<close> is one past the opcode; the bus has seen the one read of the
  opcode.
\<close>

theorem undefined_opcode_aborts:
  assumes "fst (my6502_read H (my_pc s) h) \<notin> set nmos_opcodes"
  shows "my6502_step H (s, h) =
     Inl (AssertFailed, s\<lparr>my_pc := my_pc s + 1\<rparr>, snd (my6502_read H (my_pc s) h))"
proof -
  have "map_of (opcodes H) (fst (my6502_read H (my_pc s) h)) = None"
    using assms by (simp add: no_case_iff)
  then show ?thesis
    by (simp add: my6502_step_def case_prod_unfold Let_def)
qed

text \<open>Opcode \<open>0x02\<close> at \<open>0x0400\<close>, on the harness.\<close>

theorem undefined_opcode_aborts_witness:
  "my6502_step harness
     (\<lparr>my_pc = 0x0400, my_ac = 1, my_x = 2, my_y = 3, my_sr = 0x21, my_sp = 0xF0\<rparr>,
      mem_image [(0x0400, 0x02)], []) =
   Inl (AssertFailed,
      \<lparr>my_pc = 0x0401, my_ac = 1, my_x = 2, my_y = 3, my_sr = 0x21, my_sp = 0xF0\<rparr>,
      mem_image [(0x0400, 0x02)], [Rd 0x0400 0x02])"
  using undefined_opcode_aborts [of harness
      "\<lparr>my_pc = 0x0400, my_ac = 1, my_x = 2, my_y = 3, my_sr = 0x21, my_sp = 0xF0\<rparr>"
      "(mem_image [(0x0400, 0x02)], [])"]
  by (simp add: harness_def nmos_opcodes_def)

text \<open>
  The failure does not carry the opcode byte. From the same registers at \<open>0x0400\<close>, on a
  bus that returns \<open>0x02\<close> everywhere and on a bus that returns \<open>0xFF\<close> everywhere, the
  two steps fail with the same error, the same registers and the same host: nothing
  read off the failure gives \<open>0x02\<close> for the one and \<open>0xFF\<close> for the other.
\<close>

theorem undefined_opcode_failure_lacks_opcode:
  "\<not> (\<exists>report :: unit failure + cpu \<times> unit \<Rightarrow> 8 word \<times> 16 word.
        report (my6502_step (const_bus 0x02)
          (\<lparr>my_pc = 0x0400, my_ac = 1, my_x = 2, my_y = 3, my_sr = 0x21, my_sp = 0xF0\<rparr>, ())) =
          (0x02, 0x0400)
      \<and> report (my6502_step (const_bus 0xFF)
          (\<lparr>my_pc = 0x0400, my_ac = 1, my_x = 2, my_y = 3, my_sr = 0x21, my_sp = 0xF0\<rparr>, ())) =
          (0xFF, 0x0400))"
proof -
  have "my6502_step (const_bus 0x02)
          (\<lparr>my_pc = 0x0400, my_ac = 1, my_x = 2, my_y = 3, my_sr = 0x21, my_sp = 0xF0\<rparr>, ()) =
        Inl (AssertFailed,
          \<lparr>my_pc = 0x0401, my_ac = 1, my_x = 2, my_y = 3, my_sr = 0x21, my_sp = 0xF0\<rparr>, ())"
    by (simp add: my6502_step_def const_bus_def opcodes_def)
  moreover have "my6502_step (const_bus 0xFF)
          (\<lparr>my_pc = 0x0400, my_ac = 1, my_x = 2, my_y = 3, my_sr = 0x21, my_sp = 0xF0\<rparr>, ()) =
        Inl (AssertFailed,
          \<lparr>my_pc = 0x0401, my_ac = 1, my_x = 2, my_y = 3, my_sr = 0x21, my_sp = 0xF0\<rparr>, ())"
    by (simp add: my6502_step_def const_bus_def opcodes_def)
  ultimately show ?thesis
    by auto
qed

section \<open>Every routine but RTI keeps the unused bit\<close>

lemma my_read_addr_sr: "my_read_addr H mode (s, h) = Inr (a, s', h') \<Longrightarrow> my_sr s' = my_sr s"
  by (cases mode) (auto simp: case_prod_unfold Let_def)

lemma my_read_op_sr: "my_read_op H mode (s, h) = Inr (op, s', h') \<Longrightarrow> my_sr s' = my_sr s"
  by (cases mode)
    (auto simp: read_op_at_def case_prod_unfold Let_def split: sum.splits
      dest: my_read_addr_sr)

lemma keeps_exec_r: "keeps_r f \<Longrightarrow> keeps (exec_r f)"
  by (auto simp: keeps_def keeps_r_def exec_r_def)

lemma keeps_exec_b: "keeps_b g \<Longrightarrow> keeps (exec_b g)"
  by (auto simp: keeps_def keeps_b_def exec_b_def) (metis fst_conv)

lemma keeps_exec_val: "(\<And>v. keeps_r (fv v)) \<Longrightarrow> keeps (exec_val H fv mode)"
  by (auto simp: keeps_def keeps_r_def exec_val_def split: sum.splits dest: my_read_op_sr)

lemma keeps_exec_addr_r: "(\<And>a. keeps_r (fa a)) \<Longrightarrow> keeps (exec_addr_r H fa mode)"
  by (auto simp: keeps_def keeps_r_def exec_addr_r_def split: sum.splits dest: my_read_addr_sr)

lemma keeps_exec_op:
  assumes "\<And>op. keeps_b (gop op)"
  shows "keeps (exec_op H gop mode)"
  unfolding keeps_def
proof (intro allI impI)
  fix s h s' h'
  assume run: "exec_op H gop mode (s, h) = Inr (s', h')" and bit5: "bit (my_sr s) 5"
  from run obtain op s1 h1 where rd: "my_read_op H mode (s, h) = Inr (op, s1, h1)"
    and g: "gop op (s1, h1) = (s', h')"
    by (auto simp: exec_op_def split: sum.splits)
  from rd bit5 have "bit (my_sr s1) 5"
    by (simp add: my_read_op_sr)
  with assms [of op] have "bit (my_sr (fst (gop op (s1, h1)))) 5"
    by (simp add: keeps_b_def)
  with g show "bit (my_sr s') 5"
    by simp
qed

lemma keeps_exec_addr_b:
  assumes "\<And>a. keeps_b (ga a)"
  shows "keeps (exec_addr_b H ga mode)"
  unfolding keeps_def
proof (intro allI impI)
  fix s h s' h'
  assume run: "exec_addr_b H ga mode (s, h) = Inr (s', h')" and bit5: "bit (my_sr s) 5"
  from run obtain a s1 h1 where rd: "my_read_addr H mode (s, h) = Inr (a, s1, h1)"
    and g: "ga a (s1, h1) = (s', h')"
    by (auto simp: exec_addr_b_def split: sum.splits)
  from rd bit5 have "bit (my_sr s1) 5"
    by (simp add: my_read_addr_sr)
  with assms [of a] have "bit (my_sr (fst (ga a (s1, h1)))) 5"
    by (simp add: keeps_b_def)
  with g show "bit (my_sr s') 5"
    by simp
qed

lemmas keeps_exec =
  keeps_exec_r keeps_exec_b keeps_exec_val keeps_exec_op keeps_exec_addr_r keeps_exec_addr_b

lemma my_update_sr_unused: "bit (my_sr (my_update_sr v f s)) 5 = bit (my_sr s) 5"
  by (simp add: my_update_sr_def SR_SET_def SR_CLR_def Let_def bit_or_iff bit_and_iff
      bit_not_iff flag_bit)

lemma my_update_sr_with_carry_unused:
  "bit (my_sr (my_update_sr_with_carry v f c s)) 5 = bit (my_sr s) 5"
  by (simp add: my_update_sr_with_carry_def my_update_sr_unused SR_SET_def SR_CLR_def Let_def
      bit_or_iff bit_and_iff bit_not_iff flag_bit)

lemmas unused_simps =
  my_update_sr_unused my_update_sr_with_carry_unused SR_SET_def SR_CLR_def Let_def
  bit_or_iff bit_and_iff bit_not_iff flag_bit case_prod_unfold

lemma keeps_value_routines:
  "keeps_r (my_adc v)" "keeps_r (my_and v)" "keeps_r (my_bit v)" "keeps_r (my_cmp v)"
  "keeps_r (my_cpx v)" "keeps_r (my_cpy v)" "keeps_r (my_eor v)" "keeps_r (my_lda v)"
  "keeps_r (my_ldx v)" "keeps_r (my_ldy v)" "keeps_r (my_ora v)" "keeps_r (my_sbc v)"
  by (simp_all add: keeps_r_def my_adc_def my_and_def my_bit_def my_cmp_def my_cpx_def
      my_cpy_def my_eor_def my_lda_def my_ldx_def my_ldy_def my_ora_def my_sbc_def unused_simps)

lemma keeps_address_routines:
  "keeps_r (my_bpl a)" "keeps_r (my_bmi a)" "keeps_r (my_bvc a)" "keeps_r (my_bvs a)"
  "keeps_r (my_bcc a)" "keeps_r (my_bcs a)" "keeps_r (my_bne a)" "keeps_r (my_beq a)"
  "keeps_r (my_jmp a)"
  "keeps_b (my_jsr H a)" "keeps_b (my_dec H a)" "keeps_b (my_inc H a)"
  "keeps_b (my_sta H a)" "keeps_b (my_stx H a)" "keeps_b (my_sty H a)"
  by (simp_all add: keeps_r_def keeps_b_def my_bpl_def my_bmi_def my_bvc_def my_bvs_def
      my_bcc_def my_bcs_def my_bne_def my_beq_def my_jmp_def my_jsr_def my_dec_def my_inc_def
      my_sta_def my_stx_def my_sty_def my_push_def unused_simps)

lemma keeps_shift_routines:
  "keeps_b (my_asl H op)" "keeps_b (my_lsr H op)" "keeps_b (my_rol H op)" "keeps_b (my_ror H op)"
  by (simp_all add: keeps_b_def my_asl_def my_lsr_def my_rol_def my_ror_def my_write_op_def
      unused_simps)

lemma keeps_plain_routines:
  "keeps_r my_clc" "keeps_r my_cld" "keeps_r my_cli" "keeps_r my_clv"
  "keeps_r my_dex" "keeps_r my_dey" "keeps_r my_inx" "keeps_r my_iny" "keeps_r my_nop"
  "keeps_r my_sec" "keeps_r my_sed" "keeps_r my_sei"
  "keeps_r my_tax" "keeps_r my_tay" "keeps_r my_tsx" "keeps_r my_txa" "keeps_r my_txs"
  "keeps_r my_tya"
  "keeps_b (my_brk H)" "keeps_b (my_php H)" "keeps_b (my_plp H)" "keeps_b (my_rts H)"
  "keeps_b (my_pha H)" "keeps_b (my_pla H)"
  by (simp_all add: keeps_r_def keeps_b_def my_clc_def my_cld_def my_cli_def my_clv_def
      my_dex_def my_dey_def my_inx_def my_iny_def my_nop_def my_sec_def my_sed_def my_sei_def
      my_tax_def my_tay_def my_tsx_def my_txa_def my_txs_def my_tya_def my_brk_def my_php_def
      my_plp_def my_rts_def my_pha_def my_pla_def my_push_def my_pop_def unused_simps)

lemma opcodes_keep_unused:
  "\<forall>(k, act) \<in> set (opcodes H). k \<noteq> 0x40 \<longrightarrow> keeps act"
  by (simp add: opcodes_def keeps_exec keeps_value_routines keeps_address_routines
      keeps_shift_routines keeps_plain_routines)

text \<open>
  \<^verbatim>\<open>my6502_reset\<close> sets bit 5 of \<open>SR\<close>, and a step on any opcode but \<^verbatim>\<open>RTI\<close> (\<open>0x40\<close>)
  keeps it set, for every host.
\<close>

lemma reset_sets_unused_bit: "bit (my_sr (fst (my6502_reset pc st))) 5"
  by (simp add: my6502_reset_def case_prod_unfold flag_bit)

lemma step_keeps_unused_bit:
  assumes "my6502_step H (s, h) = Inr (s', h')"
    and "fst (my6502_read H (my_pc s) h) \<noteq> 0x40"
    and "bit (my_sr s) 5"
  shows "bit (my_sr s') 5"
proof -
  let ?op = "fst (my6502_read H (my_pc s) h)"
  let ?st = "(s\<lparr>my_pc := my_pc s + 1\<rparr>, snd (my6502_read H (my_pc s) h))"
  from assms(1) obtain act where act: "map_of (opcodes H) ?op = Some act" "act ?st = Inr (s', h')"
    by (auto simp: my6502_step_def case_prod_unfold Let_def split: option.splits)
  from act(1) have "(?op, act) \<in> set (opcodes H)"
    by (rule map_of_SomeD)
  with opcodes_keep_unused [of H] assms(2) have "keeps act"
    by auto
  then have "bit (my_sr (fst ?st)) 5 \<longrightarrow> bit (my_sr s') 5"
    using act(2) unfolding keeps_def by (metis fst_conv)
  with assms(3) show ?thesis
    by simp
qed

section \<open>The unused bit of the status register\<close>

lemma run_1: "run H 1 st = my6502_step H st"
  by (simp split: sum.split)

lemma rti_lookup: "map_of (opcodes H) 0x40 = Some (exec_b (my_rti H))"
  by (simp add: opcodes_def)

lemma php_lookup: "map_of (opcodes H) 0x08 = Some (exec_b (my_php H))"
  by (simp add: opcodes_def)

lemma plp_lookup: "map_of (opcodes H) 0x28 = Some (exec_b (my_plp H))"
  by (simp add: opcodes_def)

text \<open>
  What \<^verbatim>\<open>RTI\<close> does, for any bus: the status byte pulled gets the B flag and nothing
  else, so bit 5 of \<open>SR\<close> is bit 5 of the byte on the stack.
\<close>

lemma rti_step:
  assumes "my6502_read H (my_pc s) h = (0x40, h1)"
    and "my6502_read H (STACK_OFFSET + ucast (my_sp s + 1)) h1 = (v, h2)"
    and "my6502_read H (STACK_OFFSET + ucast (my_sp s + 2)) h2 = (lo, h3)"
    and "my6502_read H (STACK_OFFSET + ucast (my_sp s + 3)) h3 = (hi, h4)"
  shows "my6502_step H (s, h) =
     Inr (s\<lparr>my_pc := ucast lo OR push_bit 8 (ucast hi), my_sr := v OR SR_FLAG_BREAK,
            my_sp := my_sp s + 3\<rparr>, h4)"
proof -
  have sp: "my_sp s + 1 + 1 = my_sp s + 2" "my_sp s + 2 + 1 = my_sp s + 3"
    by simp_all
  show ?thesis
    using assms
    by (simp add: my6502_step_def rti_lookup exec_b_def my_rti_def my_pop_def Let_def sp)
qed

lemma rti_unused_bit:
  "bit (v OR SR_FLAG_BREAK) 5 = bit v 5" "bit (v OR SR_FLAG_BREAK) 4"
  by (simp_all add: bit_or_iff flag_bit)

text \<open>What \<^verbatim>\<open>PHP\<close> and \<^verbatim>\<open>PLP\<close> do, for any bus.\<close>

lemma php_step:
  assumes "my6502_read H (my_pc s) h = (0x08, h1)"
  shows "my6502_step H (s, h) =
     Inr (s\<lparr>my_pc := my_pc s + 1, my_sp := my_sp s - 1\<rparr>,
          my6502_write H (STACK_OFFSET + ucast (my_sp s)) (my_sr s OR SR_FLAG_BREAK) h1)"
  using assms
  by (simp add: my6502_step_def php_lookup exec_b_def my_php_def my_push_def)

lemma plp_step:
  assumes "my6502_read H (my_pc s) h = (0x28, h1)"
    and "my6502_read H (STACK_OFFSET + ucast (my_sp s + 1)) h1 = (v, h2)"
  shows "my6502_step H (s, h) =
     Inr (s\<lparr>my_pc := my_pc s + 1, my_sr := v OR SR_FLAG_UNUSED, my_sp := my_sp s + 1\<rparr>, h2)"
  using assms
  by (simp add: my6502_step_def plp_lookup exec_b_def my_plp_def my_pop_def Let_def)

text \<open>
  \<^verbatim>\<open>PHP\<close> then \<^verbatim>\<open>PLP\<close>, the bus returning the byte pushed: \<open>SR\<close> comes back with the
  B flag and bit 5 set and every other flag as it was. The byte pushed has bit 5 only
  when \<open>SR\<close> had it.
\<close>

lemma php_then_plp:
  assumes "my6502_read H (my_pc s) h = (0x08, h1)"
    and "h2 = my6502_write H (STACK_OFFSET + ucast (my_sp s)) (my_sr s OR SR_FLAG_BREAK) h1"
    and "my6502_read H (my_pc s + 1) h2 = (0x28, h3)"
    and "my6502_read H (STACK_OFFSET + ucast (my_sp s)) h3 = (my_sr s OR SR_FLAG_BREAK, h4)"
  shows "run H 2 (s, h) =
     Inr (s\<lparr>my_pc := my_pc s + 2, my_sr := my_sr s OR SR_FLAG_BREAK OR SR_FLAG_UNUSED\<rparr>, h4)"
proof -
  let ?t = "s\<lparr>my_pc := my_pc s + 1, my_sp := my_sp s - 1\<rparr>"
  have "my6502_step H (s, h) = Inr (?t, h2)"
    using php_step [OF assms(1)] assms(2) by simp
  moreover have "my6502_step H (?t, h2) =
      Inr (?t\<lparr>my_pc := my_pc ?t + 1, my_sr := (my_sr s OR SR_FLAG_BREAK) OR SR_FLAG_UNUSED,
             my_sp := my_sp ?t + 1\<rparr>, h4)"
    using assms(3,4) by (intro plp_step) simp_all
  ultimately show ?thesis
    by (simp add: run_2 or.assoc)
qed

lemma php_pushed_byte:
  "my_sr s OR SR_FLAG_BREAK = my_sr s OR SR_FLAG_BREAK OR SR_FLAG_UNUSED \<longleftrightarrow> bit (my_sr s) 5"
proof
  assume "my_sr s OR SR_FLAG_BREAK = my_sr s OR SR_FLAG_BREAK OR SR_FLAG_UNUSED"
  then have "bit (my_sr s OR SR_FLAG_BREAK) 5 = bit (my_sr s OR SR_FLAG_BREAK OR SR_FLAG_UNUSED) 5"
    by simp
  then show "bit (my_sr s) 5"
    by (simp add: bit_or_iff flag_bit)
next
  assume "bit (my_sr s) 5"
  then show "my_sr s OR SR_FLAG_BREAK = my_sr s OR SR_FLAG_BREAK OR SR_FLAG_UNUSED"
    by (intro bit_word_eqI) (auto simp: bit_or_iff flag_bit)
qed

text \<open>
  C1 fails on the code. After \<^verbatim>\<open>my6502_reset(0x0400)\<close>, one step on the harness with
  \<^verbatim>\<open>RTI\<close> (\<open>0x40\<close>) at \<open>0x0400\<close> and zeros elsewhere pulls the status byte \<open>0x00\<close> and
  leaves \<open>SR = 0x10\<close>: bit 5 of the status register of this reachable state is 0.
\<close>

theorem unused_bit_cleared_after_rti:
  "\<exists>s' h'. run harness 1 (my6502_reset 0x0400 (s, mem_image [(0x0400, 0x40)], [])) = Inr (s', h')
      \<and> my_sr s' = 0x10 \<and> \<not> bit (my_sr s') 5"
  by (simp add: run_1 my6502_step_def my6502_reset_def harness_def rti_lookup exec_b_def
      my_rti_def my_pop_def SR_FLAG_defs STACK_OFFSET_def)

text \<open>
  C2 fails on the code in one respect. \<^verbatim>\<open>RTI\<close> with the bytes \<open>0x00\<close>, \<open>0x34\<close>, \<open>0x12\<close>
  on the stack pulls \<open>SR\<close>, then \<open>PC\<close> low, then \<open>PC\<close> high, with B forced to 1 and no
  \<open>+1\<close> on \<open>PC = 0x1234\<close>; but it leaves \<open>SR = 0x10\<close>, not \<open>0x30\<close>: bit 5 is not forced.
\<close>

theorem rti_does_not_force_unused_bit:
  "my6502_step harness
     (\<lparr>my_pc = 0x0400, my_ac = 1, my_x = 2, my_y = 3, my_sr = 0x20, my_sp = 0xFA\<rparr>,
      mem_image [(0x0400, 0x40), (0x01FB, 0x00), (0x01FC, 0x34), (0x01FD, 0x12)], []) =
   Inr (\<lparr>my_pc = 0x1234, my_ac = 1, my_x = 2, my_y = 3, my_sr = 0x10, my_sp = 0xFD\<rparr>,
      mem_image [(0x0400, 0x40), (0x01FB, 0x00), (0x01FC, 0x34), (0x01FD, 0x12)],
      [Rd 0x0400 0x40, Rd 0x01FB 0x00, Rd 0x01FC 0x34, Rd 0x01FD 0x12])"
  by (simp add: my6502_step_def harness_def rti_lookup exec_b_def my_rti_def my_pop_def
      SR_FLAG_defs STACK_OFFSET_def)

text \<open>
  C6 fails on the code in one respect. From \<open>SR = 0x10\<close>, the status that \<^verbatim>\<open>RTI\<close> above
  leaves, \<^verbatim>\<open>PHP\<close> pushes \<open>0x10\<close>: the byte pushed has the B flag but not bit 5.
\<close>

theorem php_pushes_status_without_unused_bit:
  "my6502_step harness
     (\<lparr>my_pc = 0x1234, my_ac = 1, my_x = 2, my_y = 3, my_sr = 0x10, my_sp = 0xFD\<rparr>,
      mem_image [(0x1234, 0x08)], []) =
   Inr (\<lparr>my_pc = 0x1235, my_ac = 1, my_x = 2, my_y = 3, my_sr = 0x10, my_sp = 0xFC\<rparr>,
      (mem_image [(0x1234, 0x08)])(0x01FD := 0x10),
      [Rd 0x1234 0x08, Wr 0x01FD 0x10])"
  by (simp add: my6502_step_def harness_def php_lookup exec_b_def my_php_def my_push_def
      SR_FLAG_defs STACK_OFFSET_def)

end
